theory Spec2Isabelle
  imports Main "HOL-Library.Multiset"
begin

section \<open>Data model\<close>

text \<open>
  A session identity. The store compares all eight fields in every \<open>WHERE\<close> clause and
  the registry uses the whole struct as its map key, so equality is structural.
\<close>

record SessionID =
  BeginString :: string
  TargetCompID :: string
  TargetSubID :: string
  TargetLocationID :: string
  SenderCompID :: string
  SenderSubID :: string
  SenderLocationID :: string
  Qualifier :: string

type_synonym time = nat

text \<open>
  Go's \<open>error\<close> values. \<open>Wrap e msg\<close> is \<open>errors.Wrap(e, msg)\<close>. The first five
  constructors are what a database call can report: \<open>ErrFault c\<close> is a failure of the
  backend itself (connection, I/O) with code \<open>c\<close>, the other four are decided by the data.
\<close>

datatype err =
    ErrRecordNotFound
  | ErrFault nat
  | ErrNoSuchTable string
  | ErrTableExists string
  | ErrDuplicateKey
  | ErrUnknownSessionFmt SessionID
  | ErrTest
  | ErrCacheOverflow
  | ErrSetting string
  | ErrFieldMissing nat
  | errDuplicateSessionID
  | errUnknownSession
  | ErrOther string
  | Wrap err string

subsection \<open>The database behind \<open>gorm.DB\<close>\<close>

text \<open>
  Modelled from the spec: the row types \<open>GormSessions\<close> and \<open>GormMessages\<close> are
  declared outside the given sources. The spec gives the schema: a session table keyed by
  the eight SessionID fields with columns \<open>creation_time, incoming_seqnum,
  outgoing_seqnum\<close>, and a messages table keyed by the eight SessionID fields and
  \<open>msgseqnum\<close> with column \<open>message\<close>. The eight key columns are kept together as
  one \<open>SessionID\<close> value.
\<close>

record GormSessions =
  s_key :: SessionID
  creation_time :: time
  incoming_seqnum :: int
  outgoing_seqnum :: int

record GormMessages =
  m_key :: SessionID
  msgseqnum :: int
  message :: string

text \<open>
  The state of the database as the shared handle sees it. A table that does not exist is
  \<open>None\<close>. \<open>fix_test_open\<close> is the number of rows of table \<open>fix_test\<close> with
  \<open>open = 1\<close>. \<open>faults\<close> is the backend's outcome for the calls to come, one entry a
  call: \<open>Some c\<close> makes the call fail with \<open>ErrFault c\<close> and change nothing; past the
  end of the list no call fails.
\<close>

record gorm_DB =
  tbl_sessions :: "GormSessions list option"
  tbl_messages :: "GormMessages list option"
  fix_test_open :: int
  faults :: "nat option list"

definition next_fault :: "gorm_DB \<Rightarrow> nat option \<times> gorm_DB" where
  "next_fault d = (case faults d of [] \<Rightarrow> (None, d) | f # fs \<Rightarrow> (f, d\<lparr>faults := fs\<rparr>))"

text \<open>\<open>Migrator().HasTable\<close>: a failed catalogue query counts no table.\<close>

definition has_table_sessions :: "gorm_DB \<Rightarrow> bool \<times> gorm_DB" where
  "has_table_sessions d =
     (case next_fault d of
        (Some c, d') \<Rightarrow> (False, d')
      | (None, d') \<Rightarrow> (tbl_sessions d' \<noteq> None, d'))"

definition has_table_messages :: "gorm_DB \<Rightarrow> bool \<times> gorm_DB" where
  "has_table_messages d =
     (case next_fault d of
        (Some c, d') \<Rightarrow> (False, d')
      | (None, d') \<Rightarrow> (tbl_messages d' \<noteq> None, d'))"

definition create_table_sessions :: "gorm_DB \<Rightarrow> err option \<times> gorm_DB" where
  "create_table_sessions d =
     (case next_fault d of
        (Some c, d') \<Rightarrow> (Some (ErrFault c), d')
      | (None, d') \<Rightarrow>
          (case tbl_sessions d' of
             Some rows \<Rightarrow> (Some (ErrTableExists ''sessions''), d')
           | None \<Rightarrow> (None, d'\<lparr>tbl_sessions := Some []\<rparr>)))"

definition create_table_messages :: "gorm_DB \<Rightarrow> err option \<times> gorm_DB" where
  "create_table_messages d =
     (case next_fault d of
        (Some c, d') \<Rightarrow> (Some (ErrFault c), d')
      | (None, d') \<Rightarrow>
          (case tbl_messages d' of
             Some rows \<Rightarrow> (Some (ErrTableExists ''messages''), d')
           | None \<Rightarrow> (None, d'\<lparr>tbl_messages := Some []\<rparr>)))"

text \<open>
  \<open>UPDATE sessions SET ... WHERE <the eight key columns> = s\<close>: every row of the
  session is changed by \<open>f\<close>; an update that matches no row is not an error.
\<close>

definition update_sessions ::
  "SessionID \<Rightarrow> (GormSessions \<Rightarrow> GormSessions) \<Rightarrow> gorm_DB \<Rightarrow> err option \<times> gorm_DB" where
  "update_sessions s f d =
     (case next_fault d of
        (Some c, d') \<Rightarrow> (Some (ErrFault c), d')
      | (None, d') \<Rightarrow>
          (case tbl_sessions d' of
             None \<Rightarrow> (Some (ErrNoSuchTable ''sessions''), d')
           | Some rows \<Rightarrow>
               (None, d'\<lparr>tbl_sessions :=
                  Some (map (\<lambda>r. if s_key r = s then f r else r) rows)\<rparr>)))"

text \<open>\<open>SELECT ... FROM sessions WHERE ... LIMIT 1\<close> into \<open>dest\<close> (\<open>First\<close>).\<close>

definition first_session :: "SessionID \<Rightarrow> gorm_DB \<Rightarrow> (err + GormSessions) \<times> gorm_DB" where
  "first_session s d =
     (case next_fault d of
        (Some c, d') \<Rightarrow> (Inl (ErrFault c), d')
      | (None, d') \<Rightarrow>
          (case tbl_sessions d' of
             None \<Rightarrow> (Inl (ErrNoSuchTable ''sessions''), d')
           | Some rows \<Rightarrow>
               (case filter (\<lambda>r. s_key r = s) rows of
                  [] \<Rightarrow> (Inl ErrRecordNotFound, d')
                | r # rs \<Rightarrow> (Inr r, d'))))"

text \<open>\<open>INSERT INTO sessions\<close>: the key of the table refuses a second row of a session.\<close>

definition insert_session :: "GormSessions \<Rightarrow> gorm_DB \<Rightarrow> err option \<times> gorm_DB" where
  "insert_session row d =
     (case next_fault d of
        (Some c, d') \<Rightarrow> (Some (ErrFault c), d')
      | (None, d') \<Rightarrow>
          (case tbl_sessions d' of
             None \<Rightarrow> (Some (ErrNoSuchTable ''sessions''), d')
           | Some rows \<Rightarrow>
               if \<exists>r \<in> set rows. s_key r = s_key row then (Some ErrDuplicateKey, d')
               else (None, d'\<lparr>tbl_sessions := Some (rows @ [row])\<rparr>)))"

text \<open>\<open>DELETE FROM messages WHERE <the eight key columns> = s\<close>.\<close>

definition delete_messages :: "SessionID \<Rightarrow> gorm_DB \<Rightarrow> err option \<times> gorm_DB" where
  "delete_messages s d =
     (case next_fault d of
        (Some c, d') \<Rightarrow> (Some (ErrFault c), d')
      | (None, d') \<Rightarrow>
          (case tbl_messages d' of
             None \<Rightarrow> (Some (ErrNoSuchTable ''messages''), d')
           | Some rows \<Rightarrow>
               (None, d'\<lparr>tbl_messages := Some (filter (\<lambda>r. m_key r \<noteq> s) rows)\<rparr>)))"

text \<open>
  \<open>INSERT INTO messages\<close>: the key of the table refuses a second row with the same
  session and sequence number.
\<close>

definition insert_message :: "GormMessages \<Rightarrow> gorm_DB \<Rightarrow> err option \<times> gorm_DB" where
  "insert_message row d =
     (case next_fault d of
        (Some c, d') \<Rightarrow> (Some (ErrFault c), d')
      | (None, d') \<Rightarrow>
          (case tbl_messages d' of
             None \<Rightarrow> (Some (ErrNoSuchTable ''messages''), d')
           | Some rows \<Rightarrow>
               if \<exists>r \<in> set rows. m_key r = m_key row \<and> msgseqnum r = msgseqnum row
               then (Some ErrDuplicateKey, d')
               else (None, d'\<lparr>tbl_messages := Some (rows @ [row])\<rparr>)))"

text \<open>
  \<open>Count\<close> writes the count through its pointer argument; the source ignores the call's
  error, and a failed count leaves the variable at its initial 0. \<open>LIMIT 1\<close> on a
  \<open>count(*)\<close> query limits the one result row, not the rows counted.
\<close>

definition count_fix_test_open :: "gorm_DB \<Rightarrow> int \<times> gorm_DB" where
  "count_fix_test_open d =
     (case next_fault d of
        (Some c, d') \<Rightarrow> (0, d')
      | (None, d') \<Rightarrow> (fix_test_open d', d'))"

definition count_messages :: "SessionID \<Rightarrow> int \<Rightarrow> gorm_DB \<Rightarrow> int \<times> gorm_DB" where
  "count_messages s seqNum d =
     (case next_fault d of
        (Some c, d') \<Rightarrow> (0, d')
      | (None, d') \<Rightarrow>
          (case tbl_messages d' of
             None \<Rightarrow> (0, d')
           | Some rows \<Rightarrow>
               (int (length (filter (\<lambda>r. m_key r = s \<and> msgseqnum r = seqNum) rows)), d')))"

text \<open>
  \<open>SELECT message FROM messages WHERE ... AND msgseqnum>=? AND msgseqnum<=? ORDER BY
  msgseqnum\<close>: the rows of the session in the closed range, ordered by sequence number.
\<close>

definition select_messages ::
  "SessionID \<Rightarrow> int \<Rightarrow> int \<Rightarrow> gorm_DB \<Rightarrow> (err + GormMessages list) \<times> gorm_DB" where
  "select_messages s beginSeqNum endSeqNum d =
     (case next_fault d of
        (Some c, d') \<Rightarrow> (Inl (ErrFault c), d')
      | (None, d') \<Rightarrow>
          (case tbl_messages d' of
             None \<Rightarrow> (Inl (ErrNoSuchTable ''messages''), d')
           | Some rows \<Rightarrow>
               (Inr (sort_key msgseqnum
                  (filter (\<lambda>r. m_key r = s \<and> beginSeqNum \<le> msgseqnum r \<and> msgseqnum r \<le> endSeqNum)
                     rows)), d')))"

subsection \<open>The in-memory cache\<close>

text \<open>
  Modelled from the spec: \<open>memoryStore\<close> is defined outside the given sources. The spec's
  SequenceCache is a record of the creation time and the next sender and target sequence
  numbers; a reset sets the creation time to now and both numbers to 1; a set mirrors the
  number; an increment advances the counter by 1 and fails when that would overflow the
  representable range (Go's \<open>int\<close>, 64 bits). Reading a number never fails.
\<close>

record memoryStore =
  creationTime :: time
  nextSenderSeqNum :: int
  nextTargetSeqNum :: int

definition max_int :: int where
  "max_int = 2 ^ 63 - 1"

definition new_memoryStore :: memoryStore where
  "new_memoryStore = \<lparr>creationTime = 0, nextSenderSeqNum = 1, nextTargetSeqNum = 1\<rparr>"

definition cache_Reset :: "time \<Rightarrow> memoryStore \<Rightarrow> err option \<times> memoryStore" where
  "cache_Reset now c =
     (None, c\<lparr>creationTime := now, nextSenderSeqNum := 1, nextTargetSeqNum := 1\<rparr>)"

definition cache_NextSenderMsgSeqNum :: "memoryStore \<Rightarrow> int" where
  "cache_NextSenderMsgSeqNum c = nextSenderSeqNum c"

definition cache_NextTargetMsgSeqNum :: "memoryStore \<Rightarrow> int" where
  "cache_NextTargetMsgSeqNum c = nextTargetSeqNum c"

definition cache_CreationTime :: "memoryStore \<Rightarrow> time" where
  "cache_CreationTime c = creationTime c"

definition cache_SetNextSenderMsgSeqNum :: "int \<Rightarrow> memoryStore \<Rightarrow> err option \<times> memoryStore" where
  "cache_SetNextSenderMsgSeqNum n c = (None, c\<lparr>nextSenderSeqNum := n\<rparr>)"

definition cache_SetNextTargetMsgSeqNum :: "int \<Rightarrow> memoryStore \<Rightarrow> err option \<times> memoryStore" where
  "cache_SetNextTargetMsgSeqNum n c = (None, c\<lparr>nextTargetSeqNum := n\<rparr>)"

definition cache_IncrNextSenderMsgSeqNum :: "memoryStore \<Rightarrow> err option \<times> memoryStore" where
  "cache_IncrNextSenderMsgSeqNum c =
     (if max_int \<le> nextSenderSeqNum c then (Some ErrCacheOverflow, c)
      else (None, c\<lparr>nextSenderSeqNum := nextSenderSeqNum c + 1\<rparr>))"

definition cache_IncrNextTargetMsgSeqNum :: "memoryStore \<Rightarrow> err option \<times> memoryStore" where
  "cache_IncrNextTargetMsgSeqNum c =
     (if max_int \<le> nextTargetSeqNum c then (Some ErrCacheOverflow, c)
      else (None, c\<lparr>nextTargetSeqNum := nextTargetSeqNum c + 1\<rparr>))"

section \<open>The store\<close>

text \<open>
  \<open>gromStore\<close>: the session, its cache and the database handle. A method with a pointer
  receiver takes the store and returns it updated, next to its Go result; a returned
  \<open>error\<close> is an \<open>err option\<close>, \<open>None\<close> for \<open>nil\<close>.
\<close>

record gromStore =
  sessionID :: SessionID
  cache :: memoryStore
  db :: gorm_DB

definition NextSenderMsgSeqNum :: "gromStore \<Rightarrow> int" where
  "NextSenderMsgSeqNum store = cache_NextSenderMsgSeqNum (cache store)"

definition NextTargetMsgSeqNum :: "gromStore \<Rightarrow> int" where
  "NextTargetMsgSeqNum store = cache_NextTargetMsgSeqNum (cache store)"

definition CreationTime :: "gromStore \<Rightarrow> time" where
  "CreationTime store = cache_CreationTime (cache store)"

definition SetNextSenderMsgSeqNum :: "int \<Rightarrow> gromStore \<Rightarrow> err option \<times> gromStore" where
  "SetNextSenderMsgSeqNum next store =
     (case update_sessions (sessionID store) (\<lambda>r. r\<lparr>outgoing_seqnum := next\<rparr>) (db store) of
        (Some e, d) \<Rightarrow> (Some e, store\<lparr>db := d\<rparr>)
      | (None, d) \<Rightarrow>
          (case cache_SetNextSenderMsgSeqNum next (cache store) of
             (r, c) \<Rightarrow> (r, store\<lparr>cache := c, db := d\<rparr>)))"

definition SetNextTargetMsgSeqNum :: "int \<Rightarrow> gromStore \<Rightarrow> err option \<times> gromStore" where
  "SetNextTargetMsgSeqNum next store =
     (case update_sessions (sessionID store) (\<lambda>r. r\<lparr>incoming_seqnum := next\<rparr>) (db store) of
        (Some e, d) \<Rightarrow> (Some e, store\<lparr>db := d\<rparr>)
      | (None, d) \<Rightarrow>
          (case cache_SetNextTargetMsgSeqNum next (cache store) of
             (r, c) \<Rightarrow> (r, store\<lparr>cache := c, db := d\<rparr>)))"

definition IncrNextSenderMsgSeqNum :: "gromStore \<Rightarrow> err option \<times> gromStore" where
  "IncrNextSenderMsgSeqNum store =
     (case cache_IncrNextSenderMsgSeqNum (cache store) of
        (Some e, c) \<Rightarrow> (Some (Wrap e ''cache incr next''), store\<lparr>cache := c\<rparr>)
      | (None, c) \<Rightarrow>
          SetNextSenderMsgSeqNum (cache_NextSenderMsgSeqNum c) (store\<lparr>cache := c\<rparr>))"

definition IncrNextTargetMsgSeqNum :: "gromStore \<Rightarrow> err option \<times> gromStore" where
  "IncrNextTargetMsgSeqNum store =
     (case cache_IncrNextTargetMsgSeqNum (cache store) of
        (Some e, c) \<Rightarrow> (Some (Wrap e ''cache incr next''), store\<lparr>cache := c\<rparr>)
      | (None, c) \<Rightarrow>
          SetNextTargetMsgSeqNum (cache_NextTargetMsgSeqNum c) (store\<lparr>cache := c\<rparr>))"

text \<open>\<open>initTables\<close>: create each of the two tables when it is not there.\<close>

definition initTables :: "gromStore \<Rightarrow> err option \<times> gromStore" where
  "initTables store =
     (case has_table_sessions (db store) of
        (has_s, d1) \<Rightarrow>
          (case (if \<not> has_s then create_table_sessions d1 else (None, d1)) of
             (Some e, d2) \<Rightarrow> (Some (Wrap e ''gromStore.initTables err''), store\<lparr>db := d2\<rparr>)
           | (None, d2) \<Rightarrow>
               (case has_table_messages d2 of
                  (has_m, d3) \<Rightarrow>
                    (case (if \<not> has_m then create_table_messages d3 else (None, d3)) of
                       (Some e, d4) \<Rightarrow>
                         (Some (Wrap e ''gromStore.initTables err''), store\<lparr>db := d4\<rparr>)
                     | (None, d4) \<Rightarrow> (None, store\<lparr>db := d4\<rparr>)))))"

text \<open>
  \<open>Reset\<close>: delete the session's messages, reset the cache, write the cache's values
  to the session's record. \<open>now\<close> is the clock the cache reads.
\<close>

definition Reset :: "time \<Rightarrow> gromStore \<Rightarrow> err option \<times> gromStore" where
  "Reset now store =
     (case delete_messages (sessionID store) (db store) of
        (Some e, d) \<Rightarrow> (Some e, store\<lparr>db := d\<rparr>)
      | (None, d) \<Rightarrow>
          (case cache_Reset now (cache store) of
             (Some e, c) \<Rightarrow> (Some e, store\<lparr>cache := c, db := d\<rparr>)
           | (None, c) \<Rightarrow>
               (case update_sessions (sessionID store)
                       (\<lambda>r. r\<lparr>creation_time := cache_CreationTime c,
                               incoming_seqnum := cache_NextTargetMsgSeqNum c,
                               outgoing_seqnum := cache_NextSenderMsgSeqNum c\<rparr>) d of
                  (r, d') \<Rightarrow> (r, store\<lparr>cache := c, db := d'\<rparr>))))"

text \<open>
  \<open>populateCache\<close>: load the session's record into the cache, or insert a record with
  the cache's values when there is none.
\<close>

definition populateCache :: "gromStore \<Rightarrow> err option \<times> gromStore" where
  "populateCache store =
     (case first_session (sessionID store) (db store) of
        (Inr dest, d) \<Rightarrow>
          (case cache_SetNextTargetMsgSeqNum (incoming_seqnum dest)
                  ((cache store)\<lparr>creationTime := creation_time dest\<rparr>) of
             (Some e, c) \<Rightarrow> (Some (Wrap e ''cache set next target''), store\<lparr>cache := c, db := d\<rparr>)
           | (None, c) \<Rightarrow>
               (case cache_SetNextSenderMsgSeqNum (outgoing_seqnum dest) c of
                  (Some e, c') \<Rightarrow>
                    (Some (Wrap e ''cache set next sender''), store\<lparr>cache := c', db := d\<rparr>)
                | (None, c') \<Rightarrow> (None, store\<lparr>cache := c', db := d\<rparr>)))
      | (Inl e, d) \<Rightarrow>
          if e = ErrRecordNotFound then
            (case insert_session
                    \<lparr>s_key = sessionID store,
                     creation_time = creationTime (cache store),
                     incoming_seqnum = cache_NextTargetMsgSeqNum (cache store),
                     outgoing_seqnum = cache_NextSenderMsgSeqNum (cache store)\<rparr> d of
               (r, d') \<Rightarrow> (r, store\<lparr>db := d'\<rparr>))
          else (Some e, store\<lparr>db := d\<rparr>))"

definition Refresh :: "time \<Rightarrow> gromStore \<Rightarrow> err option \<times> gromStore" where
  "Refresh now store =
     (case cache_Reset now (cache store) of
        (Some e, c) \<Rightarrow> (Some e, store\<lparr>cache := c\<rparr>)
      | (None, c) \<Rightarrow> populateCache (store\<lparr>cache := c\<rparr>))"

text \<open>
  \<open>SaveMessage\<close>: the gate on table \<open>fix_test\<close>, the insert, and after a failed insert
  the count of the rows already there for this session and sequence number.
\<close>

definition SaveMessage :: "int \<Rightarrow> string \<Rightarrow> gromStore \<Rightarrow> err option \<times> gromStore" where
  "SaveMessage seqNum msg store =
     (case count_fix_test_open (db store) of
        (testCnt, d0) \<Rightarrow>
          if testCnt > 1 then (Some ErrTest, store\<lparr>db := d0\<rparr>)
          else
            (case insert_message
                    \<lparr>m_key = sessionID store, msgseqnum = seqNum, message = msg\<rparr> d0 of
               (Some e, d1) \<Rightarrow>
                 (case count_messages (sessionID store) seqNum d1 of
                    (counter, d2) \<Rightarrow>
                      if counter = 1 then (None, store\<lparr>db := d2\<rparr>)
                      else (Some e, store\<lparr>db := d2\<rparr>))
             | (None, d1) \<Rightarrow> (None, store\<lparr>db := d1\<rparr>)))"

text \<open>The loop over the result rows: each row's message is appended to \<open>msgs\<close>.\<close>

fun scan_rows :: "GormMessages list \<Rightarrow> string list \<Rightarrow> string list" where
  "scan_rows [] msgs = msgs"
| "scan_rows (r # rows) msgs = scan_rows rows (msgs @ [message r])"

definition GetMessages :: "int \<Rightarrow> int \<Rightarrow> gromStore \<Rightarrow> (err + string list) \<times> gromStore" where
  "GetMessages beginSeqNum endSeqNum store =
     (case select_messages (sessionID store) beginSeqNum endSeqNum (db store) of
        (Inl e, d) \<Rightarrow> (Inl e, store\<lparr>db := d\<rparr>)
      | (Inr rows, d) \<Rightarrow> (Inr (scan_rows rows []), store\<lparr>db := d\<rparr>))"

subsection \<open>The factory\<close>

text \<open>
  Modelled from the spec: \<open>Settings\<close> is defined outside the given sources. The spec's
  configuration surface is a boolean "dynamic sessions" setting and the set of configured
  SessionIDs. \<open>globalDynamicSessions\<close> is \<open>None\<close> when \<open>HasSetting\<close> finds no such
  setting, and otherwise what \<open>BoolSetting\<close> returns for it: the boolean or an error.
  The factory's field \<open>db\<close> is \<open>fdb\<close> here, the store's record having taken the
  name.
\<close>

record Settings =
  globalDynamicSessions :: "(err + bool) option"
  sessionSettings :: "SessionID set"

record gormStoreFactory =
  settings :: Settings
  fdb :: gorm_DB

text \<open>
  \<open>Create\<close> returns the store or the error, and next to it the database as the calls
  made so far have left it.
\<close>

definition Create :: "time \<Rightarrow> gormStoreFactory \<Rightarrow> SessionID \<Rightarrow> (err + gromStore) \<times> gorm_DB" where
  "Create now f sid =
     (case (case globalDynamicSessions (settings f) of
              None \<Rightarrow> Inr False
            | Some r \<Rightarrow> r) of
        Inl e \<Rightarrow> (Inl e, fdb f)
      | Inr dynamicSessions \<Rightarrow>
          if sid \<notin> sessionSettings (settings f) \<and> \<not> dynamicSessions
          then (Inl (ErrUnknownSessionFmt sid), fdb f)
          else
            (case initTables \<lparr>sessionID = sid, cache = new_memoryStore, db = fdb f\<rparr> of
               (Some e, store) \<Rightarrow> (Inl (Wrap e ''initTables err''), db store)
             | (None, store) \<Rightarrow>
                 (case cache_Reset now (cache store) of
                    (Some e, c) \<Rightarrow> (Inl (Wrap e ''cache reset''), db store)
                  | (None, c) \<Rightarrow>
                      (case populateCache (store\<lparr>cache := c\<rparr>) of
                         (Some e, store') \<Rightarrow> (Inl e, db store')
                       | (None, store') \<Rightarrow> (Inr store', db store')))))"

section \<open>The session registry\<close>

text \<open>
  Modelled from the spec: \<open>Message\<close>, its header's \<open>GetField\<close> and the tag constants
  are defined outside the given sources. A header is a map from tags to field values, and
  reading a tag that is absent is the error "header field missing"; a failed read leaves
  the variable it reads into as it was. The five tags have their numbers of the FIX
  protocol. A \<open>Messagable\<close> is taken to be the message it converts to.
\<close>

record Message =
  Header :: "nat \<rightharpoonup> string"

definition tagBeginString :: nat where "tagBeginString = 8"
definition tagSenderCompID :: nat where "tagSenderCompID = 49"
definition tagSenderSubID :: nat where "tagSenderSubID = 50"
definition tagTargetCompID :: nat where "tagTargetCompID = 56"
definition tagTargetSubID :: nat where "tagTargetSubID = 57"

definition GetField :: "(nat \<rightharpoonup> string) \<Rightarrow> nat \<Rightarrow> err + string" where
  "GetField fm tag = (case fm tag of None \<Rightarrow> Inl (ErrFieldMissing tag) | Some v \<Rightarrow> Inr v)"

text \<open>
  A session handle: its identity and its store. The registry is written for any
  \<open>MessageStore\<close>, so the store's type is a parameter, and so are the two methods the
  registry calls on a handle: the store's \<open>Close\<close> and the session's \<open>queueForSend\<close>.
  The global map \<open>sessions\<close> holds pointers; here it holds the handles, and what a
  method does to a handle is written back under its key. The map is an argument of every
  function and returned when it can change. The fields \<open>sessionID\<close> and \<open>store\<close>
  of a handle are \<open>s_sessionID\<close> and \<open>s_store\<close>.
\<close>

record 'st session =
  s_sessionID :: SessionID
  s_store :: 'st

type_synonym 'st registry = "SessionID \<rightharpoonup> 'st session"

definition lookupSession :: "SessionID \<Rightarrow> 'st registry \<Rightarrow> 'st session option" where
  "lookupSession sid sessions = sessions sid"

definition registerSession :: "'st session \<Rightarrow> 'st registry \<Rightarrow> err option \<times> 'st registry" where
  "registerSession s sessions =
     (case sessions (s_sessionID s) of
        Some s' \<Rightarrow> (Some errDuplicateSessionID, sessions)
      | None \<Rightarrow> (None, sessions(s_sessionID s \<mapsto> s)))"

definition UnregisterSession ::
  "('st \<Rightarrow> err option \<times> 'st) \<Rightarrow> SessionID \<Rightarrow> 'st registry \<Rightarrow> err option \<times> 'st registry" where
  "UnregisterSession Close sid sessions =
     (case sessions sid of
        Some s \<Rightarrow>
          (case Close (s_store s) of
             (Some e, st) \<Rightarrow> (Some e, sessions(sid \<mapsto> s\<lparr>s_store := st\<rparr>))
           | (None, st) \<Rightarrow> (None, sessions(sid := None)))
      | None \<Rightarrow> (Some errUnknownSession, sessions))"

definition SendToTarget ::
  "('st session \<Rightarrow> Message \<Rightarrow> err option \<times> 'st session) \<Rightarrow>
   Message \<Rightarrow> SessionID \<Rightarrow> 'st registry \<Rightarrow> err option \<times> 'st registry" where
  "SendToTarget queueForSend msg sid sessions =
     (case lookupSession sid sessions of
        None \<Rightarrow> (Some errUnknownSession, sessions)
      | Some s \<Rightarrow>
          (case queueForSend s msg of
             (r, s') \<Rightarrow> (r, sessions(sid \<mapsto> s'))))"

definition Send ::
  "('st session \<Rightarrow> Message \<Rightarrow> err option \<times> 'st session) \<Rightarrow>
   Message \<Rightarrow> 'st registry \<Rightarrow> err option \<times> 'st registry" where
  "Send queueForSend msg sessions =
     (case GetField (Header msg) tagBeginString of
        Inl e \<Rightarrow> (Some e, sessions)
      | Inr beginString \<Rightarrow>
          (case GetField (Header msg) tagTargetCompID of
             Inl e \<Rightarrow> (Some e, sessions)
           | Inr targetCompID \<Rightarrow>
               (case GetField (Header msg) tagSenderCompID of
                  Inl e \<Rightarrow> (Some e, sessions)
                | Inr senderCompID \<Rightarrow>
                    (let senderSubID =
                           (case GetField (Header msg) tagSenderSubID of
                              Inl e \<Rightarrow> [] | Inr v \<Rightarrow> v);
                         targetSubID =
                           (case GetField (Header msg) tagTargetSubID of
                              Inl e \<Rightarrow> [] | Inr v \<Rightarrow> v)
                     in if length senderSubID > 0 \<and> length targetSubID > 0
                        then SendToTarget queueForSend msg
                               \<lparr>BeginString = beginString, TargetCompID = targetCompID,
                                TargetSubID = targetSubID, TargetLocationID = [],
                                SenderCompID = senderCompID, SenderSubID = senderSubID,
                                SenderLocationID = [], Qualifier = []\<rparr> sessions
                        else SendToTarget queueForSend msg
                               \<lparr>BeginString = beginString, TargetCompID = targetCompID,
                                TargetSubID = [], TargetLocationID = [],
                                SenderCompID = senderCompID, SenderSubID = [],
                                SenderLocationID = [], Qualifier = []\<rparr> sessions))))"

section \<open>Example values\<close>

text \<open>
  One session, FIX.4.2 from SENDER to TARGET, and around it a store over a database that
  holds the session's record, a fresh database with no table, a factory that has the
  session configured, a registry handle, a header and a message log.
\<close>


definition ex_sid :: SessionID where
  "ex_sid = \<lparr>BeginString = ''FIX.4.2'', TargetCompID = ''TARGET'', TargetSubID = [],
     TargetLocationID = [], SenderCompID = ''SENDER'', SenderSubID = [],
     SenderLocationID = [], Qualifier = []\<rparr>"

definition ex_store :: "nat option list \<Rightarrow> gromStore" where
  "ex_store fs =
     \<lparr>sessionID = ex_sid,
      cache = \<lparr>creationTime = 0, nextSenderSeqNum = 1, nextTargetSeqNum = 1\<rparr>,
      db = \<lparr>tbl_sessions = Some [\<lparr>s_key = ex_sid, creation_time = 0, incoming_seqnum = 1,
                                  outgoing_seqnum = 1\<rparr>],
            tbl_messages = Some [], fix_test_open = 0, faults = fs\<rparr>\<rparr>"

definition ex_store_msgs :: "GormMessages list \<Rightarrow> nat option list \<Rightarrow> gromStore" where
  "ex_store_msgs msgs fs =
     \<lparr>sessionID = ex_sid,
      cache = \<lparr>creationTime = 0, nextSenderSeqNum = 1, nextTargetSeqNum = 1\<rparr>,
      db = \<lparr>tbl_sessions = Some [\<lparr>s_key = ex_sid, creation_time = 0, incoming_seqnum = 1,
                                  outgoing_seqnum = 1\<rparr>],
            tbl_messages = Some msgs, fix_test_open = 0, faults = fs\<rparr>\<rparr>"

definition ex_session :: "unit session" where
  "ex_session = \<lparr>s_sessionID = ex_sid, s_store = ()\<rparr>"

definition ex_header :: "nat \<rightharpoonup> string" where
  "ex_header = [tagBeginString \<mapsto> ''FIX.4.2'', tagTargetCompID \<mapsto> ''TARGET'',
                tagSenderCompID \<mapsto> ''SENDER'']"

definition ex_log :: "GormMessages list" where
  "ex_log =
     [\<lparr>m_key = ex_sid, msgseqnum = 2, message = ''35=0''\<rparr>,
      \<lparr>m_key = ex_sid\<lparr>Qualifier := ''B''\<rparr>, msgseqnum = 1, message = ''35=X''\<rparr>,
      \<lparr>m_key = ex_sid, msgseqnum = 3, message = ''35=D''\<rparr>,
      \<lparr>m_key = ex_sid, msgseqnum = 1, message = ''35=A''\<rparr>]"

definition ex_db :: "nat option list \<Rightarrow> gorm_DB" where
  "ex_db fs = \<lparr>tbl_sessions = None, tbl_messages = None, fix_test_open = 0, faults = fs\<rparr>"

definition ex_factory :: "gorm_DB \<Rightarrow> gormStoreFactory" where
  "ex_factory d =
     \<lparr>settings = \<lparr>globalDynamicSessions = None, sessionSettings = {ex_sid}\<rparr>, fdb = d\<rparr>"

definition ex_store_at :: "int \<Rightarrow> gromStore" where
  "ex_store_at k =
     \<lparr>sessionID = ex_sid,
      cache = \<lparr>creationTime = 5, nextSenderSeqNum = k, nextTargetSeqNum = 1\<rparr>,
      db = \<lparr>tbl_sessions = Some [\<lparr>s_key = ex_sid, creation_time = 5, incoming_seqnum = 1,
                                  outgoing_seqnum = k\<rparr>],
            tbl_messages = Some [], fix_test_open = 0, faults = []\<rparr>\<rparr>"

section \<open>Predicates of the statements\<close>

text \<open>The log entries a range query asks for: those of session \<open>s\<close> numbered from
  \<open>b\<close> to \<open>e\<close>, both included.\<close>

definition in_range :: "SessionID \<Rightarrow> int \<Rightarrow> int \<Rightarrow> GormMessages \<Rightarrow> bool" where
  "in_range s b e r \<longleftrightarrow> m_key r = s \<and> b \<le> msgseqnum r \<and> msgseqnum r \<le> e"

text \<open>The record of session \<open>s\<close> that a lookup finds: the first one in the table.\<close>

definition session_record :: "SessionID \<Rightarrow> gorm_DB \<Rightarrow> GormSessions option" where
  "session_record s d =
     (case tbl_sessions d of
        None \<Rightarrow> None
      | Some rows \<Rightarrow> (case filter (\<lambda>r. s_key r = s) rows of [] \<Rightarrow> None | r # rs \<Rightarrow> Some r))"

text \<open>\<open>n\<close> calls of \<open>IncrNextSenderMsgSeqNum\<close> in a row, stopping at the first error.\<close>

fun IncrNextSenderMsgSeqNum_times :: "nat \<Rightarrow> gromStore \<Rightarrow> err option \<times> gromStore" where
  "IncrNextSenderMsgSeqNum_times 0 store = (None, store)"
| "IncrNextSenderMsgSeqNum_times (Suc n) store =
     (case IncrNextSenderMsgSeqNum store of
        (Some e, store') \<Rightarrow> (Some e, store')
      | (None, store') \<Rightarrow> IncrNextSenderMsgSeqNum_times n store')"

text \<open>The session has a record, and its outgoing number is the cache's.\<close>

definition record_mirrors_cache :: "gromStore \<Rightarrow> bool" where
  "record_mirrors_cache store \<longleftrightarrow>
     (case session_record (sessionID store) (db store) of
        None \<Rightarrow> False
      | Some r \<Rightarrow> outgoing_seqnum r = NextSenderMsgSeqNum store)"

text \<open>The identity passes the admission check of \<open>Create\<close>.\<close>

definition admitted :: "Settings \<Rightarrow> SessionID \<Rightarrow> bool" where
  "admitted cfg sid \<longleftrightarrow>
     (case globalDynamicSessions cfg of
        None \<Rightarrow> sid \<in> sessionSettings cfg
      | Some (Inl e) \<Rightarrow> False
      | Some (Inr b) \<Rightarrow> sid \<in> sessionSettings cfg \<or> b)"

section \<open>Properties of the store\<close>

lemmas db_defs = next_fault_def has_table_sessions_def has_table_messages_def
  create_table_sessions_def create_table_messages_def update_sessions_def first_session_def
  insert_session_def delete_messages_def insert_message_def count_fix_test_open_def
  count_messages_def select_messages_def

section \<open>Sequence numbers: set and increment\<close>

lemmas cache_defs = cache_SetNextSenderMsgSeqNum_def cache_SetNextTargetMsgSeqNum_def
  cache_NextSenderMsgSeqNum_def cache_NextTargetMsgSeqNum_def cache_CreationTime_def
  cache_IncrNextSenderMsgSeqNum_def cache_IncrNextTargetMsgSeqNum_def cache_Reset_def
  NextSenderMsgSeqNum_def NextTargetMsgSeqNum_def CreationTime_def


lemma update_sessions_fail_tables:
  "update_sessions s f d = (Some e, d') \<Longrightarrow>
     tbl_sessions d' = tbl_sessions d \<and> tbl_messages d' = tbl_messages d \<and>
     fix_test_open d' = fix_test_open d"
  by (auto simp: update_sessions_def next_fault_def split: list.splits option.splits)

lemma update_sessions_ok_rows:
  "update_sessions s f d = (None, d') \<Longrightarrow>
     \<exists>rows. tbl_sessions d = Some rows \<and>
       tbl_sessions d' = Some (map (\<lambda>r. if s_key r = s then f r else r) rows) \<and>
       tbl_messages d' = tbl_messages d \<and> fix_test_open d' = fix_test_open d"
  by (auto simp: update_sessions_def next_fault_def split: list.splits option.splits)

lemma update_sessions_ok_outgoing:
  "update_sessions s (\<lambda>r. r\<lparr>outgoing_seqnum := n\<rparr>) d = (None, d') \<Longrightarrow>
     \<exists>rows. tbl_sessions d' = Some rows \<and> (\<forall>r \<in> set rows. s_key r = s \<longrightarrow> outgoing_seqnum r = n)"
  apply (drule update_sessions_ok_rows)
  apply (erule exE)
  apply (erule conjE)+
  apply (simp only: )
  apply (rule exI, rule conjI, rule refl)
  apply (simp only: set_map ball_simps)
  apply clarify
  apply (simp split: if_splits)
  done

lemma update_sessions_ok_incoming:
  "update_sessions s (\<lambda>r. r\<lparr>incoming_seqnum := n\<rparr>) d = (None, d') \<Longrightarrow>
     \<exists>rows. tbl_sessions d' = Some rows \<and> (\<forall>r \<in> set rows. s_key r = s \<longrightarrow> incoming_seqnum r = n)"
  apply (drule update_sessions_ok_rows)
  apply (erule exE)
  apply (erule conjE)+
  apply (simp only: )
  apply (rule exI, rule conjI, rule refl)
  apply (simp only: set_map ball_simps)
  apply clarify
  apply (simp split: if_splits)
  done

lemma SetNext_sender_fail:
  "update_sessions (sessionID store) (\<lambda>r. r\<lparr>outgoing_seqnum := n\<rparr>) (db store) = (Some e, d) \<Longrightarrow>
     SetNextSenderMsgSeqNum n store = (Some e, store\<lparr>db := d\<rparr>)"
  by (simp add: SetNextSenderMsgSeqNum_def)

lemma SetNext_sender_ok:
  "update_sessions (sessionID store) (\<lambda>r. r\<lparr>outgoing_seqnum := n\<rparr>) (db store) = (None, d) \<Longrightarrow>
     SetNextSenderMsgSeqNum n store =
       (None, store\<lparr>cache := (cache store)\<lparr>nextSenderSeqNum := n\<rparr>, db := d\<rparr>)"
  by (simp add: SetNextSenderMsgSeqNum_def cache_SetNextSenderMsgSeqNum_def)

lemma SetNext_target_fail:
  "update_sessions (sessionID store) (\<lambda>r. r\<lparr>incoming_seqnum := n\<rparr>) (db store) = (Some e, d) \<Longrightarrow>
     SetNextTargetMsgSeqNum n store = (Some e, store\<lparr>db := d\<rparr>)"
  by (simp add: SetNextTargetMsgSeqNum_def)

lemma SetNext_target_ok:
  "update_sessions (sessionID store) (\<lambda>r. r\<lparr>incoming_seqnum := n\<rparr>) (db store) = (None, d) \<Longrightarrow>
     SetNextTargetMsgSeqNum n store =
       (None, store\<lparr>cache := (cache store)\<lparr>nextTargetSeqNum := n\<rparr>, db := d\<rparr>)"
  by (simp add: SetNextTargetMsgSeqNum_def cache_SetNextTargetMsgSeqNum_def)

lemma cache_Incr_sender_ok:
  "cache_IncrNextSenderMsgSeqNum c0 = (None, c) \<Longrightarrow>
     c = c0\<lparr>nextSenderSeqNum := nextSenderSeqNum c0 + 1\<rparr> \<and> nextSenderSeqNum c0 < max_int"
  by (auto simp: cache_IncrNextSenderMsgSeqNum_def split: if_splits)

lemma cache_Incr_target_ok:
  "cache_IncrNextTargetMsgSeqNum c0 = (None, c) \<Longrightarrow>
     c = c0\<lparr>nextTargetSeqNum := nextTargetSeqNum c0 + 1\<rparr> \<and> nextTargetSeqNum c0 < max_int"
  by (auto simp: cache_IncrNextTargetMsgSeqNum_def split: if_splits)

lemma Incr_sender_fail:
  "cache_IncrNextSenderMsgSeqNum (cache store) = (Some e, c) \<Longrightarrow>
     IncrNextSenderMsgSeqNum store = (Some (Wrap e ''cache incr next''), store\<lparr>cache := c\<rparr>)"
  by (simp add: IncrNextSenderMsgSeqNum_def)

lemma Incr_sender_ok:
  "cache_IncrNextSenderMsgSeqNum (cache store) = (None, c) \<Longrightarrow>
     IncrNextSenderMsgSeqNum store =
       SetNextSenderMsgSeqNum (nextSenderSeqNum (cache store) + 1) (store\<lparr>cache := c\<rparr>)"
  by (frule cache_Incr_sender_ok)
     (simp add: IncrNextSenderMsgSeqNum_def cache_NextSenderMsgSeqNum_def)

lemma Incr_target_fail:
  "cache_IncrNextTargetMsgSeqNum (cache store) = (Some e, c) \<Longrightarrow>
     IncrNextTargetMsgSeqNum store = (Some (Wrap e ''cache incr next''), store\<lparr>cache := c\<rparr>)"
  by (simp add: IncrNextTargetMsgSeqNum_def)

lemma Incr_target_ok:
  "cache_IncrNextTargetMsgSeqNum (cache store) = (None, c) \<Longrightarrow>
     IncrNextTargetMsgSeqNum store =
       SetNextTargetMsgSeqNum (nextTargetSeqNum (cache store) + 1) (store\<lparr>cache := c\<rparr>)"
  by (frule cache_Incr_target_ok)
     (simp add: IncrNextTargetMsgSeqNum_def cache_NextTargetMsgSeqNum_def)

text \<open>
  C1. \<open>SetNextSenderMsgSeqNum n\<close> and \<open>SetNextTargetMsgSeqNum n\<close> write through:
  the update of the session's record comes first. When it fails with \<open>e\<close>, the call
  returns \<open>e\<close>, the cache is as it was and so is the session table. When it succeeds,
  the call returns no error, the cache reads \<open>n\<close>, and every record of this session
  holds \<open>n\<close> in the column written.
\<close>

theorem SetNext_write_through:
  "(\<forall>e d. update_sessions (sessionID store) (\<lambda>r. r\<lparr>outgoing_seqnum := n\<rparr>) (db store) = (Some e, d) \<longrightarrow>
      fst (SetNextSenderMsgSeqNum n store) = Some e \<and>
      cache (snd (SetNextSenderMsgSeqNum n store)) = cache store \<and>
      tbl_sessions (db (snd (SetNextSenderMsgSeqNum n store))) = tbl_sessions (db store)) \<and>
   (\<forall>d. update_sessions (sessionID store) (\<lambda>r. r\<lparr>outgoing_seqnum := n\<rparr>) (db store) = (None, d) \<longrightarrow>
      fst (SetNextSenderMsgSeqNum n store) = None \<and>
      NextSenderMsgSeqNum (snd (SetNextSenderMsgSeqNum n store)) = n \<and>
      db (snd (SetNextSenderMsgSeqNum n store)) = d \<and>
      (\<exists>rows. tbl_sessions d = Some rows \<and>
         (\<forall>r \<in> set rows. s_key r = sessionID store \<longrightarrow> outgoing_seqnum r = n))) \<and>
   (\<forall>e d. update_sessions (sessionID store) (\<lambda>r. r\<lparr>incoming_seqnum := n\<rparr>) (db store) = (Some e, d) \<longrightarrow>
      fst (SetNextTargetMsgSeqNum n store) = Some e \<and>
      cache (snd (SetNextTargetMsgSeqNum n store)) = cache store \<and>
      tbl_sessions (db (snd (SetNextTargetMsgSeqNum n store))) = tbl_sessions (db store)) \<and>
   (\<forall>d. update_sessions (sessionID store) (\<lambda>r. r\<lparr>incoming_seqnum := n\<rparr>) (db store) = (None, d) \<longrightarrow>
      fst (SetNextTargetMsgSeqNum n store) = None \<and>
      NextTargetMsgSeqNum (snd (SetNextTargetMsgSeqNum n store)) = n \<and>
      db (snd (SetNextTargetMsgSeqNum n store)) = d \<and>
      (\<exists>rows. tbl_sessions d = Some rows \<and>
         (\<forall>r \<in> set rows. s_key r = sessionID store \<longrightarrow> incoming_seqnum r = n)))"
proof -
  have sender_fail: "fst (SetNextSenderMsgSeqNum n store) = Some e \<and>
      cache (snd (SetNextSenderMsgSeqNum n store)) = cache store \<and>
      tbl_sessions (db (snd (SetNextSenderMsgSeqNum n store))) = tbl_sessions (db store)"
    if u: "update_sessions (sessionID store) (\<lambda>r. r\<lparr>outgoing_seqnum := n\<rparr>) (db store) = (Some e, d)"
    for e d
    using SetNext_sender_fail [OF u] update_sessions_fail_tables [OF u] by simp
  have sender_ok: "fst (SetNextSenderMsgSeqNum n store) = None \<and>
      NextSenderMsgSeqNum (snd (SetNextSenderMsgSeqNum n store)) = n \<and>
      db (snd (SetNextSenderMsgSeqNum n store)) = d \<and>
      (\<exists>rows. tbl_sessions d = Some rows \<and>
         (\<forall>r \<in> set rows. s_key r = sessionID store \<longrightarrow> outgoing_seqnum r = n))"
    if u: "update_sessions (sessionID store) (\<lambda>r. r\<lparr>outgoing_seqnum := n\<rparr>) (db store) = (None, d)"
    for d
    using SetNext_sender_ok [OF u] update_sessions_ok_outgoing [OF u]
    by (simp add: NextSenderMsgSeqNum_def cache_NextSenderMsgSeqNum_def)
  have target_fail: "fst (SetNextTargetMsgSeqNum n store) = Some e \<and>
      cache (snd (SetNextTargetMsgSeqNum n store)) = cache store \<and>
      tbl_sessions (db (snd (SetNextTargetMsgSeqNum n store))) = tbl_sessions (db store)"
    if u: "update_sessions (sessionID store) (\<lambda>r. r\<lparr>incoming_seqnum := n\<rparr>) (db store) = (Some e, d)"
    for e d
    using SetNext_target_fail [OF u] update_sessions_fail_tables [OF u] by simp
  have target_ok: "fst (SetNextTargetMsgSeqNum n store) = None \<and>
      NextTargetMsgSeqNum (snd (SetNextTargetMsgSeqNum n store)) = n \<and>
      db (snd (SetNextTargetMsgSeqNum n store)) = d \<and>
      (\<exists>rows. tbl_sessions d = Some rows \<and>
         (\<forall>r \<in> set rows. s_key r = sessionID store \<longrightarrow> incoming_seqnum r = n))"
    if u: "update_sessions (sessionID store) (\<lambda>r. r\<lparr>incoming_seqnum := n\<rparr>) (db store) = (None, d)"
    for d
    using SetNext_target_ok [OF u] update_sessions_ok_incoming [OF u]
    by (simp add: NextTargetMsgSeqNum_def cache_NextTargetMsgSeqNum_def)
  show ?thesis
    by (intro conjI allI impI sender_fail sender_ok target_fail target_ok)
qed

theorem SetNext_write_through_witness:
  "fst (SetNextSenderMsgSeqNum 7 (ex_store [Some 3])) = Some (ErrFault 3) \<and>
   cache (snd (SetNextSenderMsgSeqNum 7 (ex_store [Some 3]))) = cache (ex_store [Some 3]) \<and>
   fst (SetNextSenderMsgSeqNum 7 (ex_store [])) = None \<and>
   NextSenderMsgSeqNum (snd (SetNextSenderMsgSeqNum 7 (ex_store []))) = 7 \<and>
   fst (SetNextTargetMsgSeqNum 7 (ex_store [Some 3])) = Some (ErrFault 3) \<and>
   cache (snd (SetNextTargetMsgSeqNum 7 (ex_store [Some 3]))) = cache (ex_store [Some 3]) \<and>
   fst (SetNextTargetMsgSeqNum 7 (ex_store [])) = None \<and>
   NextTargetMsgSeqNum (snd (SetNextTargetMsgSeqNum 7 (ex_store []))) = 7"
  using SetNext_write_through [of "ex_store [Some 3]" 7] SetNext_write_through [of "ex_store []" 7]
  by (simp add: update_sessions_def next_fault_def ex_store_def)

text \<open>
  C2, as stated, fails: the increment changes the cache before the record is written, so
  a failed write leaves the cache one ahead. Here the write of \<open>2\<close> fails with fault 3.
\<close>

theorem Incr_counterexample:
  "fst (IncrNextSenderMsgSeqNum (ex_store [Some 3])) = Some (ErrFault 3) \<and>
   NextSenderMsgSeqNum (ex_store [Some 3]) = 1 \<and>
   NextSenderMsgSeqNum (snd (IncrNextSenderMsgSeqNum (ex_store [Some 3]))) = 2 \<and>
   cache (snd (IncrNextSenderMsgSeqNum (ex_store [Some 3]))) \<noteq> cache (ex_store [Some 3]) \<and>
   fst (update_sessions ex_sid (\<lambda>r. r\<lparr>outgoing_seqnum := 2\<rparr>) (db (ex_store [Some 3]))) =
     Some (ErrFault 3)"
  by (simp add: IncrNextSenderMsgSeqNum_def SetNextSenderMsgSeqNum_def cache_defs max_int_def
        update_sessions_def next_fault_def ex_store_def)

text \<open>
  C2, amended. \<open>IncrNextSenderMsgSeqNum\<close> and \<open>IncrNextTargetMsgSeqNum\<close> first
  increment the cache. When that fails with \<open>e\<close>, the call returns \<open>e\<close> wrapped as
  "cache incr next" and the database is as it was, no call made. Otherwise the call is the
  corresponding Set of the old value plus one, made on the store whose cache already holds
  that value; when the write of the record then fails with \<open>e\<close>, the call returns
  \<open>e\<close>, the session table is as it was, and the cache keeps the incremented value.
\<close>

theorem Incr_cache_first:
  "(\<forall>e c. cache_IncrNextSenderMsgSeqNum (cache store) = (Some e, c) \<longrightarrow>
      fst (IncrNextSenderMsgSeqNum store) = Some (Wrap e ''cache incr next'') \<and>
      db (snd (IncrNextSenderMsgSeqNum store)) = db store) \<and>
   (\<forall>c. cache_IncrNextSenderMsgSeqNum (cache store) = (None, c) \<longrightarrow>
      cache_NextSenderMsgSeqNum c = NextSenderMsgSeqNum store + 1 \<and>
      IncrNextSenderMsgSeqNum store =
        SetNextSenderMsgSeqNum (NextSenderMsgSeqNum store + 1) (store\<lparr>cache := c\<rparr>) \<and>
      (\<forall>e d. update_sessions (sessionID store)
                (\<lambda>r. r\<lparr>outgoing_seqnum := NextSenderMsgSeqNum store + 1\<rparr>) (db store) = (Some e, d) \<longrightarrow>
         fst (IncrNextSenderMsgSeqNum store) = Some e \<and>
         NextSenderMsgSeqNum (snd (IncrNextSenderMsgSeqNum store)) = NextSenderMsgSeqNum store + 1 \<and>
         tbl_sessions (db (snd (IncrNextSenderMsgSeqNum store))) = tbl_sessions (db store))) \<and>
   (\<forall>e c. cache_IncrNextTargetMsgSeqNum (cache store) = (Some e, c) \<longrightarrow>
      fst (IncrNextTargetMsgSeqNum store) = Some (Wrap e ''cache incr next'') \<and>
      db (snd (IncrNextTargetMsgSeqNum store)) = db store) \<and>
   (\<forall>c. cache_IncrNextTargetMsgSeqNum (cache store) = (None, c) \<longrightarrow>
      cache_NextTargetMsgSeqNum c = NextTargetMsgSeqNum store + 1 \<and>
      IncrNextTargetMsgSeqNum store =
        SetNextTargetMsgSeqNum (NextTargetMsgSeqNum store + 1) (store\<lparr>cache := c\<rparr>) \<and>
      (\<forall>e d. update_sessions (sessionID store)
                (\<lambda>r. r\<lparr>incoming_seqnum := NextTargetMsgSeqNum store + 1\<rparr>) (db store) = (Some e, d) \<longrightarrow>
         fst (IncrNextTargetMsgSeqNum store) = Some e \<and>
         NextTargetMsgSeqNum (snd (IncrNextTargetMsgSeqNum store)) = NextTargetMsgSeqNum store + 1 \<and>
         tbl_sessions (db (snd (IncrNextTargetMsgSeqNum store))) = tbl_sessions (db store)))"
proof -
  have sender_fail: "fst (IncrNextSenderMsgSeqNum store) = Some (Wrap e ''cache incr next'') \<and>
      db (snd (IncrNextSenderMsgSeqNum store)) = db store"
    if "cache_IncrNextSenderMsgSeqNum (cache store) = (Some e, c)" for e c
    using that by (simp add: Incr_sender_fail)
  have target_fail: "fst (IncrNextTargetMsgSeqNum store) = Some (Wrap e ''cache incr next'') \<and>
      db (snd (IncrNextTargetMsgSeqNum store)) = db store"
    if "cache_IncrNextTargetMsgSeqNum (cache store) = (Some e, c)" for e c
    using that by (simp add: Incr_target_fail)
  have sender_ok: "cache_NextSenderMsgSeqNum c = NextSenderMsgSeqNum store + 1 \<and>
      IncrNextSenderMsgSeqNum store =
        SetNextSenderMsgSeqNum (NextSenderMsgSeqNum store + 1) (store\<lparr>cache := c\<rparr>) \<and>
      (\<forall>e d. update_sessions (sessionID store)
                (\<lambda>r. r\<lparr>outgoing_seqnum := NextSenderMsgSeqNum store + 1\<rparr>) (db store) = (Some e, d) \<longrightarrow>
         fst (IncrNextSenderMsgSeqNum store) = Some e \<and>
         NextSenderMsgSeqNum (snd (IncrNextSenderMsgSeqNum store)) = NextSenderMsgSeqNum store + 1 \<and>
         tbl_sessions (db (snd (IncrNextSenderMsgSeqNum store))) = tbl_sessions (db store))"
    if ok: "cache_IncrNextSenderMsgSeqNum (cache store) = (None, c)" for c
  proof -
    from ok have c: "c = (cache store)\<lparr>nextSenderSeqNum := nextSenderSeqNum (cache store) + 1\<rparr>"
      by (simp add: cache_Incr_sender_ok)
    have nxt: "NextSenderMsgSeqNum store = nextSenderSeqNum (cache store)"
      by (simp add: NextSenderMsgSeqNum_def cache_NextSenderMsgSeqNum_def)
    have eq: "IncrNextSenderMsgSeqNum store =
        SetNextSenderMsgSeqNum (NextSenderMsgSeqNum store + 1) (store\<lparr>cache := c\<rparr>)"
      using Incr_sender_ok [OF ok] by (simp add: nxt)
    have "fst (IncrNextSenderMsgSeqNum store) = Some e \<and>
         NextSenderMsgSeqNum (snd (IncrNextSenderMsgSeqNum store)) = NextSenderMsgSeqNum store + 1 \<and>
         tbl_sessions (db (snd (IncrNextSenderMsgSeqNum store))) = tbl_sessions (db store)"
      if u: "update_sessions (sessionID store)
                (\<lambda>r. r\<lparr>outgoing_seqnum := NextSenderMsgSeqNum store + 1\<rparr>) (db store) = (Some e, d)"
      for e d
    proof -
      from u have "SetNextSenderMsgSeqNum (NextSenderMsgSeqNum store + 1) (store\<lparr>cache := c\<rparr>) =
          (Some e, store\<lparr>cache := c, db := d\<rparr>)"
        by (simp add: SetNext_sender_fail)
      with eq update_sessions_fail_tables [OF u] show ?thesis
        by (simp add: c NextSenderMsgSeqNum_def cache_NextSenderMsgSeqNum_def)
    qed
    with eq show ?thesis
      by (simp add: c nxt cache_NextSenderMsgSeqNum_def)
  qed
  have target_ok: "cache_NextTargetMsgSeqNum c = NextTargetMsgSeqNum store + 1 \<and>
      IncrNextTargetMsgSeqNum store =
        SetNextTargetMsgSeqNum (NextTargetMsgSeqNum store + 1) (store\<lparr>cache := c\<rparr>) \<and>
      (\<forall>e d. update_sessions (sessionID store)
                (\<lambda>r. r\<lparr>incoming_seqnum := NextTargetMsgSeqNum store + 1\<rparr>) (db store) = (Some e, d) \<longrightarrow>
         fst (IncrNextTargetMsgSeqNum store) = Some e \<and>
         NextTargetMsgSeqNum (snd (IncrNextTargetMsgSeqNum store)) = NextTargetMsgSeqNum store + 1 \<and>
         tbl_sessions (db (snd (IncrNextTargetMsgSeqNum store))) = tbl_sessions (db store))"
    if ok: "cache_IncrNextTargetMsgSeqNum (cache store) = (None, c)" for c
  proof -
    from ok have c: "c = (cache store)\<lparr>nextTargetSeqNum := nextTargetSeqNum (cache store) + 1\<rparr>"
      by (simp add: cache_Incr_target_ok)
    have nxt: "NextTargetMsgSeqNum store = nextTargetSeqNum (cache store)"
      by (simp add: NextTargetMsgSeqNum_def cache_NextTargetMsgSeqNum_def)
    have eq: "IncrNextTargetMsgSeqNum store =
        SetNextTargetMsgSeqNum (NextTargetMsgSeqNum store + 1) (store\<lparr>cache := c\<rparr>)"
      using Incr_target_ok [OF ok] by (simp add: nxt)
    have "fst (IncrNextTargetMsgSeqNum store) = Some e \<and>
         NextTargetMsgSeqNum (snd (IncrNextTargetMsgSeqNum store)) = NextTargetMsgSeqNum store + 1 \<and>
         tbl_sessions (db (snd (IncrNextTargetMsgSeqNum store))) = tbl_sessions (db store)"
      if u: "update_sessions (sessionID store)
                (\<lambda>r. r\<lparr>incoming_seqnum := NextTargetMsgSeqNum store + 1\<rparr>) (db store) = (Some e, d)"
      for e d
    proof -
      from u have "SetNextTargetMsgSeqNum (NextTargetMsgSeqNum store + 1) (store\<lparr>cache := c\<rparr>) =
          (Some e, store\<lparr>cache := c, db := d\<rparr>)"
        by (simp add: SetNext_target_fail)
      with eq update_sessions_fail_tables [OF u] show ?thesis
        by (simp add: c NextTargetMsgSeqNum_def cache_NextTargetMsgSeqNum_def)
    qed
    with eq show ?thesis
      by (simp add: c nxt cache_NextTargetMsgSeqNum_def)
  qed
  show ?thesis
    by (intro conjI allI impI sender_fail sender_ok target_fail target_ok)
qed

theorem Incr_cache_first_witness:
  "fst (IncrNextSenderMsgSeqNum (ex_store [Some 3])) = Some (ErrFault 3) \<and>
   NextSenderMsgSeqNum (ex_store [Some 3]) = 1 \<and>
   NextSenderMsgSeqNum (snd (IncrNextSenderMsgSeqNum (ex_store [Some 3]))) = 2 \<and>
   tbl_sessions (db (snd (IncrNextSenderMsgSeqNum (ex_store [Some 3])))) =
     tbl_sessions (db (ex_store [Some 3])) \<and>
   fst (IncrNextTargetMsgSeqNum (ex_store [Some 3])) = Some (ErrFault 3) \<and>
   NextTargetMsgSeqNum (snd (IncrNextTargetMsgSeqNum (ex_store [Some 3]))) = 2 \<and>
   fst (IncrNextSenderMsgSeqNum
          ((ex_store [])\<lparr>cache := (cache (ex_store []))\<lparr>nextSenderSeqNum := max_int\<rparr>\<rparr>)) =
     Some (Wrap ErrCacheOverflow ''cache incr next'') \<and>
   db (snd (IncrNextSenderMsgSeqNum
          ((ex_store [])\<lparr>cache := (cache (ex_store []))\<lparr>nextSenderSeqNum := max_int\<rparr>\<rparr>))) =
     db (ex_store [])"
proof -
  let ?s = "ex_store [Some 3]"
  let ?m = "(ex_store [])\<lparr>cache := (cache (ex_store []))\<lparr>nextSenderSeqNum := max_int\<rparr>\<rparr>"
  have n: "NextSenderMsgSeqNum ?s = 1" "NextTargetMsgSeqNum ?s = 1"
    by (simp_all add: cache_defs ex_store_def)
  have cs: "cache_IncrNextSenderMsgSeqNum (cache ?s) =
      (None, (cache ?s)\<lparr>nextSenderSeqNum := 2\<rparr>)"
    by (simp add: cache_defs max_int_def ex_store_def)
  have ct: "cache_IncrNextTargetMsgSeqNum (cache ?s) =
      (None, (cache ?s)\<lparr>nextTargetSeqNum := 2\<rparr>)"
    by (simp add: cache_defs max_int_def ex_store_def)
  have us: "update_sessions (sessionID ?s)
      (\<lambda>r. r\<lparr>outgoing_seqnum := NextSenderMsgSeqNum ?s + 1\<rparr>) (db ?s) =
      (Some (ErrFault 3), (db ?s)\<lparr>faults := []\<rparr>)"
    by (simp add: update_sessions_def next_fault_def ex_store_def)
  have ut: "update_sessions (sessionID ?s)
      (\<lambda>r. r\<lparr>incoming_seqnum := NextTargetMsgSeqNum ?s + 1\<rparr>) (db ?s) =
      (Some (ErrFault 3), (db ?s)\<lparr>faults := []\<rparr>)"
    by (simp add: update_sessions_def next_fault_def ex_store_def)
  have cm: "cache_IncrNextSenderMsgSeqNum (cache ?m) = (Some ErrCacheOverflow, cache ?m)"
    by (simp add: cache_defs ex_store_def)
  from Incr_cache_first [of ?s] cs us ct ut
  have "fst (IncrNextSenderMsgSeqNum ?s) = Some (ErrFault 3) \<and>
      NextSenderMsgSeqNum (snd (IncrNextSenderMsgSeqNum ?s)) = NextSenderMsgSeqNum ?s + 1 \<and>
      tbl_sessions (db (snd (IncrNextSenderMsgSeqNum ?s))) = tbl_sessions (db ?s) \<and>
      fst (IncrNextTargetMsgSeqNum ?s) = Some (ErrFault 3) \<and>
      NextTargetMsgSeqNum (snd (IncrNextTargetMsgSeqNum ?s)) = NextTargetMsgSeqNum ?s + 1"
    by blast
  moreover from Incr_cache_first [of ?m] cm
  have "fst (IncrNextSenderMsgSeqNum ?m) = Some (Wrap ErrCacheOverflow ''cache incr next'') \<and>
      db (snd (IncrNextSenderMsgSeqNum ?m)) = db ?m"
    by blast
  moreover have "db ?m = db (ex_store [])"
    by simp
  ultimately show ?thesis
    using n by simp
qed

section \<open>Saving a message\<close>

lemma insert_message_fail_tables:
  "insert_message row d = (Some e, d') \<Longrightarrow>
     tbl_messages d' = tbl_messages d \<and> tbl_sessions d' = tbl_sessions d"
  by (clarsimp simp: insert_message_def next_fault_def split: list.splits option.splits if_splits)

lemma count_messages_tables:
  "count_messages s n d = (k, d') \<Longrightarrow>
     tbl_messages d' = tbl_messages d \<and> tbl_sessions d' = tbl_sessions d"
  by (clarsimp simp: count_messages_def next_fault_def split: list.splits option.splits if_splits)

lemma count_fix_test_open_tables:
  "count_fix_test_open d = (k, d') \<Longrightarrow>
     tbl_messages d' = tbl_messages d \<and> tbl_sessions d' = tbl_sessions d"
  by (clarsimp simp: count_fix_test_open_def next_fault_def split: list.splits option.splits if_splits)

text \<open>
  C3. When the gate lets the insert run and the insert fails with \<open>e\<close>, the store
  counts the rows already there for its session and \<open>seqNum\<close>: with a count of
  exactly one \<open>SaveMessage\<close> returns no error, with any other count it returns the
  insert's error \<open>e\<close>. Either way the failed insert leaves the message table as it
  was.
\<close>

theorem SaveMessage_duplicate_policy:
  assumes gate: "count_fix_test_open (db store) = (testCnt, d0)" "\<not> testCnt > 1"
    and ins: "insert_message
         \<lparr>m_key = sessionID store, msgseqnum = seqNum, message = msg\<rparr> d0 = (Some e, d1)"
    and cnt: "count_messages (sessionID store) seqNum d1 = (counter, d2)"
  shows "fst (SaveMessage seqNum msg store) = (if counter = 1 then None else Some e) \<and>
         tbl_messages (db (snd (SaveMessage seqNum msg store))) = tbl_messages (db store)"
proof -
  have "SaveMessage seqNum msg store =
      (if counter = 1 then None else Some e, store\<lparr>db := d2\<rparr>)"
    using gate ins cnt by (simp add: SaveMessage_def)
  moreover have "tbl_messages d2 = tbl_messages (db store)"
    using count_fix_test_open_tables [OF gate(1)] insert_message_fail_tables [OF ins]
      count_messages_tables [OF cnt] by simp
  ultimately show ?thesis by simp
qed

theorem SaveMessage_duplicate_policy_witness:
  "fst (SaveMessage 1 ''35=A''
      (ex_store_msgs [\<lparr>m_key = ex_sid, msgseqnum = 1, message = ''35=A''\<rparr>] [])) = None \<and>
   fst (SaveMessage 1 ''35=A'' (ex_store_msgs [] [None, Some 9])) = Some (ErrFault 9) \<and>
   fst (SaveMessage 1 ''35=A''
      (ex_store_msgs [\<lparr>m_key = ex_sid, msgseqnum = 1, message = ''35=A''\<rparr>,
                      \<lparr>m_key = ex_sid, msgseqnum = 1, message = ''35=A''\<rparr>] [])) =
     Some ErrDuplicateKey"
proof -
  let ?row = "\<lparr>m_key = ex_sid, msgseqnum = 1, message = ''35=A''\<rparr>"
  let ?a = "ex_store_msgs [?row] []"
  let ?b = "ex_store_msgs [] [None, Some 9]"
  have a1: "count_fix_test_open (db ?a) = (0, db ?a)"
    by (simp add: count_fix_test_open_def next_fault_def ex_store_msgs_def)
  have a2: "insert_message \<lparr>m_key = sessionID ?a, msgseqnum = 1, message = ''35=A''\<rparr> (db ?a) =
      (Some ErrDuplicateKey, db ?a)"
    by (simp add: insert_message_def next_fault_def ex_store_msgs_def)
  have a3: "count_messages (sessionID ?a) 1 (db ?a) = (1, db ?a)"
    by (simp add: count_messages_def next_fault_def ex_store_msgs_def)
  have b1: "count_fix_test_open (db ?b) = (0, (db ?b)\<lparr>faults := [Some 9]\<rparr>)"
    by (simp add: count_fix_test_open_def next_fault_def ex_store_msgs_def)
  have b2: "insert_message \<lparr>m_key = sessionID ?b, msgseqnum = 1, message = ''35=A''\<rparr>
      ((db ?b)\<lparr>faults := [Some 9]\<rparr>) = (Some (ErrFault 9), (db ?b)\<lparr>faults := []\<rparr>)"
    by (simp add: insert_message_def next_fault_def ex_store_msgs_def)
  have b3: "count_messages (sessionID ?b) 1 ((db ?b)\<lparr>faults := []\<rparr>) =
      (0, (db ?b)\<lparr>faults := []\<rparr>)"
    by (simp add: count_messages_def next_fault_def ex_store_msgs_def)
  let ?c = "ex_store_msgs [?row, ?row] []"
  have c1: "count_fix_test_open (db ?c) = (0, db ?c)"
    by (simp add: count_fix_test_open_def next_fault_def ex_store_msgs_def)
  have c2: "insert_message \<lparr>m_key = sessionID ?c, msgseqnum = 1, message = ''35=A''\<rparr> (db ?c) =
      (Some ErrDuplicateKey, db ?c)"
    by (simp add: insert_message_def next_fault_def ex_store_msgs_def)
  have c3: "count_messages (sessionID ?c) 1 (db ?c) = (2, db ?c)"
    by (simp add: count_messages_def next_fault_def ex_store_msgs_def)
  from SaveMessage_duplicate_policy [OF a1 _ a2 a3] SaveMessage_duplicate_policy [OF b1 _ b2 b3]
    SaveMessage_duplicate_policy [OF c1 _ c2 c3]
  show ?thesis by simp
qed

section \<open>Reading messages back\<close>

lemma scan_rows_append: "scan_rows rows msgs = msgs @ map message rows"
  by (induction rows arbitrary: msgs) simp_all

lemma select_messages_Inr:
  "select_messages s b e d = (Inr rows, d') \<Longrightarrow>
     \<exists>all. tbl_messages d = Some all \<and> rows = sort_key msgseqnum (filter (in_range s b e) all) \<and>
       tbl_messages d' = tbl_messages d \<and> tbl_sessions d' = tbl_sessions d"
  unfolding in_range_def
  by (clarsimp simp: select_messages_def next_fault_def split: list.splits option.splits)

lemma select_messages_no_fault:
  "fst (next_fault d) = None \<Longrightarrow> tbl_messages d = Some all \<Longrightarrow>
     fst (select_messages s b e d) = Inr (sort_key msgseqnum (filter (in_range s b e) all))"
  unfolding in_range_def
  by (clarsimp simp: select_messages_def next_fault_def split: list.splits option.splits)

lemma select_messages_fault:
  "fst (next_fault d) = Some c \<Longrightarrow> fst (select_messages s b e d) = Inl (ErrFault c)"
  by (clarsimp simp: select_messages_def next_fault_def split: list.splits option.splits)

lemma GetMessages_fst:
  "fst (GetMessages b e store) =
     (case fst (select_messages (sessionID store) b e (db store)) of
        Inl err \<Rightarrow> Inl err | Inr rows \<Rightarrow> Inr (map message rows))"
  by (simp add: GetMessages_def scan_rows_append split: prod.splits sum.splits)

lemma GetMessages_Inr:
  "GetMessages b e store = (Inr msgs, store') \<Longrightarrow>
     \<exists>rows. select_messages (sessionID store) b e (db store) = (Inr rows, db store') \<and>
       msgs = map message rows"
  by (auto simp: GetMessages_def scan_rows_append split: prod.splits sum.splits)

text \<open>
  C8. A \<open>GetMessages b e\<close> that succeeds returns the messages of exactly the stored
  rows of this session numbered from \<open>b\<close> to \<open>e\<close>, both included, each row once,
  in ascending order of sequence number, and leaves the message table as it was. When the
  backend does not fail the query, the call succeeds; and then, when \<open>e < b\<close> or no
  row of the session is in the range, it returns the empty sequence and no error.
\<close>

theorem GetMessages_range_ascending:
  "(\<forall>msgs store'. GetMessages b e store = (Inr msgs, store') \<longrightarrow>
      (\<exists>rows all. tbl_messages (db store) = Some all \<and>
         mset rows = filter_mset (in_range (sessionID store) b e) (mset all) \<and>
         sorted (map msgseqnum rows) \<and> msgs = map message rows) \<and>
      tbl_messages (db store') = tbl_messages (db store)) \<and>
   (\<forall>all. fst (next_fault (db store)) = None \<and> tbl_messages (db store) = Some all \<longrightarrow>
      (\<exists>msgs. fst (GetMessages b e store) = Inr msgs) \<and>
      (e < b \<or> \<not> (\<exists>r \<in> set all. in_range (sessionID store) b e r) \<longrightarrow>
         fst (GetMessages b e store) = Inr []))"
proof (intro conjI allI impI)
  fix msgs store'
  assume g: "GetMessages b e store = (Inr msgs, store')"
  from GetMessages_Inr [OF g] obtain rows where
    sel: "select_messages (sessionID store) b e (db store) = (Inr rows, db store')" and
    msgs: "msgs = map message rows"
    by blast
  from select_messages_Inr [OF sel] obtain all where
    all: "tbl_messages (db store) = Some all" and
    rows: "rows = sort_key msgseqnum (filter (in_range (sessionID store) b e) all)" and
    same: "tbl_messages (db store') = tbl_messages (db store)"
    by blast
  have "mset rows = filter_mset (in_range (sessionID store) b e) (mset all)"
    by (simp add: rows)
  moreover have "sorted (map msgseqnum rows)"
    by (simp add: rows)
  ultimately show "\<exists>rows all. tbl_messages (db store) = Some all \<and>
         mset rows = filter_mset (in_range (sessionID store) b e) (mset all) \<and>
         sorted (map msgseqnum rows) \<and> msgs = map message rows"
    using all msgs by blast
  from same show "tbl_messages (db store') = tbl_messages (db store)" .
next
  fix all
  assume h: "fst (next_fault (db store)) = None \<and> tbl_messages (db store) = Some all"
  then show "\<exists>msgs. fst (GetMessages b e store) = Inr msgs"
    by (simp add: GetMessages_fst select_messages_no_fault)
next
  fix all
  assume h: "fst (next_fault (db store)) = None \<and> tbl_messages (db store) = Some all"
    and emp: "e < b \<or> \<not> (\<exists>r \<in> set all. in_range (sessionID store) b e r)"
  have "filter (in_range (sessionID store) b e) all = []"
  proof (rule filter_False, rule ballI)
    fix r assume "r \<in> set all"
    with emp show "\<not> in_range (sessionID store) b e r"
      by (auto simp: in_range_def)
  qed
  with h show "fst (GetMessages b e store) = Inr []"
    by (simp add: GetMessages_fst select_messages_no_fault)
qed

theorem GetMessages_range_ascending_witness:
  "fst (GetMessages 1 2 (ex_store_msgs ex_log [])) = Inr [''35=A'', ''35=0''] \<and>
   fst (GetMessages 2 1 (ex_store_msgs ex_log [])) = Inr [] \<and>
   fst (GetMessages 4 9 (ex_store_msgs ex_log [])) = Inr []"
proof -
  let ?s = "ex_store_msgs ex_log []"
  have h: "fst (next_fault (db ?s)) = None \<and> tbl_messages (db ?s) = Some ex_log"
    by (simp add: next_fault_def ex_store_msgs_def)
  have none: "\<not> (\<exists>r \<in> set ex_log. in_range (sessionID ?s) 4 9 r)"
    by (simp add: ex_log_def in_range_def)
  have "fst (GetMessages 1 2 ?s) = Inr [''35=A'', ''35=0'']"
    by (simp add: GetMessages_def select_messages_def next_fault_def ex_store_msgs_def
          ex_log_def ex_sid_def)
  moreover from GetMessages_range_ascending [of 2 1 ?s] h
  have "fst (GetMessages 2 1 ?s) = Inr []"
    by simp
  moreover from GetMessages_range_ascending [of 4 9 ?s] h none
  have "fst (GetMessages 4 9 ?s) = Inr []"
    by blast
  ultimately show ?thesis by simp
qed

section \<open>Sequence numbers across a restart\<close>

lemma session_record_faults [simp]:
  "session_record s (d\<lparr>faults := fs\<rparr>) = session_record s d"
  by (simp add: session_record_def)

lemma next_fault_tables:
  "next_fault d = (r, d') \<Longrightarrow> d' = d\<lparr>faults := faults d'\<rparr>"
  by (auto simp: next_fault_def split: list.splits)

lemma first_session_cases:
  "first_session s d = (r, d') \<Longrightarrow>
     d' = d\<lparr>faults := faults d'\<rparr> \<and>
     (case r of
        Inr dest \<Rightarrow> session_record s d = Some dest
      | Inl e \<Rightarrow> (e = ErrRecordNotFound \<longrightarrow>
                   (\<exists>rows. tbl_sessions d = Some rows \<and> filter (\<lambda>r. s_key r = s) rows = [])))"
  by (clarsimp simp: first_session_def session_record_def next_fault_def
        split: list.splits option.splits)

lemma insert_session_ok:
  "insert_session row d = (None, d') \<Longrightarrow>
     \<exists>rows. tbl_sessions d = Some rows \<and> tbl_sessions d' = Some (rows @ [row])"
  by (clarsimp simp: insert_session_def next_fault_def split: list.splits option.splits if_splits)

lemma populateCache_ok:
  assumes p: "populateCache store = (None, store')"
  shows "sessionID store' = sessionID store \<and>
     (\<exists>r. session_record (sessionID store) (db store') = Some r \<and>
        outgoing_seqnum r = NextSenderMsgSeqNum store') \<and>
     (\<forall>r. session_record (sessionID store) (db store) = Some r \<longrightarrow>
        NextSenderMsgSeqNum store' = outgoing_seqnum r)"
proof -
  obtain r d where fs: "first_session (sessionID store) (db store) = (r, d)"
    by (cases "first_session (sessionID store) (db store)")
  from first_session_cases [OF fs] have
    d: "d = (db store)\<lparr>faults := faults d\<rparr>" and
    rc: "case r of
        Inr dest \<Rightarrow> session_record (sessionID store) (db store) = Some dest
      | Inl e \<Rightarrow> (e = ErrRecordNotFound \<longrightarrow>
          (\<exists>rows. tbl_sessions (db store) = Some rows \<and>
             filter (\<lambda>r. s_key r = sessionID store) rows = []))"
    by simp_all
  have rec_d: "session_record (sessionID store) d = session_record (sessionID store) (db store)"
    by (subst d) simp
  show ?thesis
  proof (cases r)
    case (Inr dest)
    with p fs have st: "store' = store\<lparr>cache := (cache store)\<lparr>creationTime := creation_time dest,
        nextTargetSeqNum := incoming_seqnum dest, nextSenderSeqNum := outgoing_seqnum dest\<rparr>,
        db := d\<rparr>"
      by (simp add: populateCache_def cache_defs)
    from Inr rc have dest: "session_record (sessionID store) (db store) = Some dest"
      by simp
    show ?thesis
      by (simp add: st rec_d dest cache_defs)
  next
    case (Inl e)
    with p fs have e: "e = ErrRecordNotFound"
      by (simp add: populateCache_def split: if_splits)
    let ?row = "\<lparr>s_key = sessionID store, creation_time = creationTime (cache store),
        incoming_seqnum = cache_NextTargetMsgSeqNum (cache store),
        outgoing_seqnum = cache_NextSenderMsgSeqNum (cache store)\<rparr>"
    obtain d' where ins: "insert_session ?row d = (None, d')" and st: "store' = store\<lparr>db := d'\<rparr>"
      using p fs Inl e by (auto simp: populateCache_def split: prod.splits)
    from Inl e rc obtain rows where
      rows: "tbl_sessions (db store) = Some rows"
        "filter (\<lambda>r. s_key r = sessionID store) rows = []"
      by auto
    have "tbl_sessions d = Some rows"
      by (subst d) (simp add: rows)
    with insert_session_ok [OF ins] have d': "tbl_sessions d' = Some (rows @ [?row])"
      by simp
    have rec': "session_record (sessionID store) d' = Some ?row"
      by (simp add: session_record_def d' rows)
    have none: "session_record (sessionID store) (db store) = None"
      by (simp add: session_record_def rows)
    show ?thesis
      by (simp add: st rec' none cache_defs)
  qed
qed

lemma filter_key_map_update:
  assumes "\<And>r. s_key (f r) = s_key r"
  shows "filter (\<lambda>r. s_key r = s) (map (\<lambda>r. if s_key r = s then f r else r) rows) =
     map f (filter (\<lambda>r. s_key r = s) rows)"
  by (induction rows) (simp_all add: assms)

lemma update_sessions_record:
  assumes u: "update_sessions s f d = (None, d')"
    and k: "\<And>r. s_key (f r) = s_key r"
    and r: "session_record s d = Some r"
  shows "session_record s d' = Some (f r)"
proof -
  from update_sessions_ok_rows [OF u] obtain rows where
    rows: "tbl_sessions d = Some rows"
      "tbl_sessions d' = Some (map (\<lambda>r. if s_key r = s then f r else r) rows)"
    by blast
  from r rows(1) obtain rs where "filter (\<lambda>r. s_key r = s) rows = r # rs"
    by (auto simp: session_record_def split: list.splits)
  then show ?thesis
    by (simp add: session_record_def rows(2) filter_key_map_update [OF k])
qed

lemma SetNextSender_ok:
  assumes "SetNextSenderMsgSeqNum n store = (None, store')"
  shows "update_sessions (sessionID store) (\<lambda>r. r\<lparr>outgoing_seqnum := n\<rparr>) (db store) =
       (None, db store') \<and>
     store' = store\<lparr>cache := (cache store)\<lparr>nextSenderSeqNum := n\<rparr>, db := db store'\<rparr>"
  using assms
  by (auto simp: SetNextSenderMsgSeqNum_def cache_SetNextSenderMsgSeqNum_def
        split: prod.splits option.splits)

lemma IncrNextSender_ok:
  assumes i: "IncrNextSenderMsgSeqNum store = (None, store')"
  shows "sessionID store' = sessionID store \<and>
     NextSenderMsgSeqNum store' = NextSenderMsgSeqNum store + 1 \<and>
     (\<forall>r. session_record (sessionID store) (db store) = Some r \<longrightarrow>
        session_record (sessionID store) (db store') =
          Some (r\<lparr>outgoing_seqnum := NextSenderMsgSeqNum store + 1\<rparr>))"
proof -
  obtain c where c: "cache_IncrNextSenderMsgSeqNum (cache store) = (None, c)"
    using i by (auto simp: IncrNextSenderMsgSeqNum_def split: prod.splits option.splits)
  let ?n = "nextSenderSeqNum (cache store) + 1"
  from Incr_sender_ok [OF c] i have
    set: "SetNextSenderMsgSeqNum ?n (store\<lparr>cache := c\<rparr>) = (None, store')"
    by simp
  from SetNextSender_ok [OF set] have
    u: "update_sessions (sessionID store) (\<lambda>r. r\<lparr>outgoing_seqnum := ?n\<rparr>) (db store) =
       (None, db store')" and
    st: "store' = store\<lparr>cache := c\<lparr>nextSenderSeqNum := ?n\<rparr>, db := db store'\<rparr>"
    by simp_all
  have sid: "sessionID store' = sessionID store"
    by (subst st) simp
  have nxt: "NextSenderMsgSeqNum store' = NextSenderMsgSeqNum store + 1"
    by (subst st) (simp add: cache_defs)
  have "session_record (sessionID store) (db store') = Some (r\<lparr>outgoing_seqnum := ?n\<rparr>)"
    if "session_record (sessionID store) (db store) = Some r" for r
    using update_sessions_record [OF u _ that] by simp
  with sid nxt show ?thesis
    by (simp add: cache_defs)
qed

lemma IncrNextSender_mirrors:
  assumes "IncrNextSenderMsgSeqNum store = (None, store')" and "record_mirrors_cache store"
  shows "record_mirrors_cache store'"
  using IncrNextSender_ok [OF assms(1)] assms(2)
  by (auto simp: record_mirrors_cache_def split: option.splits)

lemma Incr_times_ok:
  "IncrNextSenderMsgSeqNum_times n store = (None, store') \<Longrightarrow>
     sessionID store' = sessionID store \<and>
     NextSenderMsgSeqNum store' = NextSenderMsgSeqNum store + int n \<and>
     (record_mirrors_cache store \<longrightarrow> record_mirrors_cache store')"
proof (induction n arbitrary: store)
  case 0
  then show ?case by simp
next
  case (Suc n)
  from Suc.prems obtain mid where
    one: "IncrNextSenderMsgSeqNum store = (None, mid)" and
    rest: "IncrNextSenderMsgSeqNum_times n mid = (None, store')"
    by (auto split: prod.splits option.splits)
  from IncrNextSender_ok [OF one] IncrNextSender_mirrors [OF one] Suc.IH [OF rest]
  show ?case by simp
qed

lemma initTables_ok:
  "initTables store = (None, store') \<Longrightarrow>
     sessionID store' = sessionID store \<and> cache store' = cache store \<and>
     (\<forall>rows. tbl_sessions (db store) = Some rows \<longrightarrow> tbl_sessions (db store') = Some rows)"
  by (clarsimp simp: initTables_def has_table_sessions_def has_table_messages_def
        create_table_sessions_def create_table_messages_def next_fault_def
        split: prod.splits option.splits list.splits if_splits)

lemma initTables_record:
  assumes "initTables store = (None, store')" and "session_record s (db store) = Some r"
  shows "session_record s (db store') = Some r"
  using initTables_ok [OF assms(1)] assms(2)
  by (auto simp: session_record_def split: option.splits)

lemma Create_Inr:
  assumes c: "Create now f sid = (Inr store, d)"
  shows "\<exists>st1. initTables \<lparr>sessionID = sid, cache = new_memoryStore, db = fdb f\<rparr> = (None, st1) \<and>
     populateCache (st1\<lparr>cache := (cache st1)\<lparr>creationTime := now, nextSenderSeqNum := 1,
        nextTargetSeqNum := 1\<rparr>\<rparr>) = (None, store) \<and> d = db store \<and> admitted (settings f) sid"
  using c
  by (auto simp: Create_def cache_Reset_def admitted_def
        split: prod.splits option.splits sum.splits if_splits)

lemma Create_ok:
  assumes c: "Create now f sid = (Inr store, d)"
  shows "d = db store \<and> sessionID store = sid \<and> record_mirrors_cache store \<and>
     admitted (settings f) sid \<and>
     (\<forall>r. session_record sid (fdb f) = Some r \<longrightarrow> NextSenderMsgSeqNum store = outgoing_seqnum r)"
proof -
  let ?s0 = "\<lparr>sessionID = sid, cache = new_memoryStore, db = fdb f\<rparr>"
  from Create_Inr [OF c] obtain st1 where
    init: "initTables ?s0 = (None, st1)" and
    pop: "populateCache (st1\<lparr>cache := (cache st1)\<lparr>creationTime := now, nextSenderSeqNum := 1,
        nextTargetSeqNum := 1\<rparr>\<rparr>) = (None, store)" and
    d: "d = db store" and adm: "admitted (settings f) sid"
    by blast
  from initTables_ok [OF init] have sid1: "sessionID st1 = sid"
    by simp
  from populateCache_ok [OF pop] sid1 have
    sid: "sessionID store = sid" and
    mir: "\<exists>r. session_record sid (db store) = Some r \<and> outgoing_seqnum r = NextSenderMsgSeqNum store" and
    old: "\<forall>r. session_record sid (db st1) = Some r \<longrightarrow> NextSenderMsgSeqNum store = outgoing_seqnum r"
    by simp_all
  have "NextSenderMsgSeqNum store = outgoing_seqnum r" if "session_record sid (fdb f) = Some r" for r
    using initTables_record [OF init, of sid r] that old by simp
  moreover from mir sid have "record_mirrors_cache store"
    by (auto simp: record_mirrors_cache_def)
  ultimately show ?thesis
    using d sid adm by simp
qed

lemma first_session_no_fault:
  "faults d = [] \<Longrightarrow> session_record s d = Some r \<Longrightarrow> first_session s d = (Inr r, d)"
  by (auto simp: first_session_def session_record_def next_fault_def
        split: option.splits list.splits)

lemma populateCache_no_fault:
  assumes "faults (db store) = []" and "session_record (sessionID store) (db store) = Some r"
  shows "fst (populateCache store) = None"
  using first_session_no_fault [OF assms]
  by (simp add: populateCache_def cache_defs)

lemma initTables_no_fault:
  assumes "faults (db store) = []" and "tbl_sessions (db store) = Some rows"
  shows "\<exists>store'. initTables store = (None, store') \<and> faults (db store') = []"
  using assms
  by (cases "tbl_messages (db store)")
     (simp_all add: initTables_def has_table_sessions_def has_table_messages_def
        create_table_messages_def next_fault_def)

lemma Create_no_fault:
  assumes fl: "faults (fdb f) = []" and r: "session_record sid (fdb f) = Some r"
    and adm: "admitted (settings f) sid"
  shows "\<exists>store. Create now f sid = (Inr store, db store)"
proof -
  let ?s0 = "\<lparr>sessionID = sid, cache = new_memoryStore, db = fdb f\<rparr>"
  from r obtain rows where "tbl_sessions (db ?s0) = Some rows"
    by (auto simp: session_record_def split: option.splits)
  with initTables_no_fault [of ?s0] fl obtain st1 where
    init: "initTables ?s0 = (None, st1)" and fl1: "faults (db st1) = []"
    by auto
  from initTables_ok [OF init] have sid1: "sessionID st1 = sid"
    by simp
  let ?s1 = "st1\<lparr>cache := (cache st1)\<lparr>creationTime := now, nextSenderSeqNum := 1,
        nextTargetSeqNum := 1\<rparr>\<rparr>"
  from initTables_record [OF init, of sid r] r have "session_record (sessionID ?s1) (db ?s1) = Some r"
    by (simp add: sid1)
  with populateCache_no_fault [of ?s1 r] fl1 have "fst (populateCache ?s1) = None"
    by simp
  then obtain store where pop: "populateCache ?s1 = (None, store)"
    by (cases "populateCache ?s1") simp
  from adm obtain dyn where
    "(case globalDynamicSessions (settings f) of None \<Rightarrow> Inr False | Some r \<Rightarrow> r) = Inr dyn"
    "\<not> (sid \<notin> sessionSettings (settings f) \<and> \<not> dyn)"
    by (auto simp: admitted_def split: option.splits sum.splits)
  with init pop have "Create now f sid = (Inr store, db store)"
    by (simp add: Create_def cache_Reset_def)
  then show ?thesis by blast
qed

lemma Refresh_eq:
  "Refresh now store =
     populateCache (store\<lparr>cache := (cache store)\<lparr>creationTime := now, nextSenderSeqNum := 1,
        nextTargetSeqNum := 1\<rparr>\<rparr>)"
  by (simp add: Refresh_def cache_Reset_def)

text \<open>
  C4. Take a store that \<open>Create\<close> returned and whose next sender number is 1. After
  \<open>n\<close> calls of \<open>IncrNextSenderMsgSeqNum\<close> that all succeeded the number is
  \<open>1 + n\<close>. A new store created over the database as these calls left it, whatever
  failures the backend has in stock, reads \<open>1 + n\<close> whenever its creation succeeds,
  and the creation does succeed when the backend does not fail; the same holds for
  \<open>Refresh\<close> of the store.
\<close>

theorem Incr_times_survives_restart:
  assumes c: "Create now f sid = (Inr store0, d0)"
    and one: "NextSenderMsgSeqNum store0 = 1"
    and n: "IncrNextSenderMsgSeqNum_times n store0 = (None, store)"
  shows "NextSenderMsgSeqNum store = 1 + int n \<and>
     (\<forall>now' fs store' d'.
        Create now' (f\<lparr>fdb := (db store)\<lparr>faults := fs\<rparr>\<rparr>) sid = (Inr store', d') \<longrightarrow>
        NextSenderMsgSeqNum store' = 1 + int n) \<and>
     (\<forall>now'. \<exists>store'.
        Create now' (f\<lparr>fdb := (db store)\<lparr>faults := []\<rparr>\<rparr>) sid = (Inr store', db store')) \<and>
     (\<forall>now' fs store'.
        Refresh now' (store\<lparr>db := (db store)\<lparr>faults := fs\<rparr>\<rparr>) = (None, store') \<longrightarrow>
        NextSenderMsgSeqNum store' = 1 + int n) \<and>
     (\<forall>now'. fst (Refresh now' (store\<lparr>db := (db store)\<lparr>faults := []\<rparr>\<rparr>)) = None)"
proof -
  from Create_ok [OF c] have
    sid0: "sessionID store0 = sid" and mir0: "record_mirrors_cache store0" and
    adm: "admitted (settings f) sid"
    by simp_all
  from Incr_times_ok [OF n] one sid0 mir0 have
    sid: "sessionID store = sid" and val: "NextSenderMsgSeqNum store = 1 + int n" and
    mir: "record_mirrors_cache store"
    by simp_all
  from mir sid val obtain r where
    r: "session_record sid (db store) = Some r" and out: "outgoing_seqnum r = 1 + int n"
    by (auto simp: record_mirrors_cache_def split: option.splits)
  have create_val: "NextSenderMsgSeqNum store' = 1 + int n"
    if "Create now' (f\<lparr>fdb := (db store)\<lparr>faults := fs\<rparr>\<rparr>) sid = (Inr store', d')"
    for now' fs store' d'
    using Create_ok [OF that] r out by simp
  have create_tot: "\<exists>store'.
      Create now' (f\<lparr>fdb := (db store)\<lparr>faults := []\<rparr>\<rparr>) sid = (Inr store', db store')" for now'
    using Create_no_fault [of "f\<lparr>fdb := (db store)\<lparr>faults := []\<rparr>\<rparr>" sid r now'] r adm
    by simp
  have refresh_val: "NextSenderMsgSeqNum store' = 1 + int n"
    if "Refresh now' (store\<lparr>db := (db store)\<lparr>faults := fs\<rparr>\<rparr>) = (None, store')"
    for now' fs store'
    using populateCache_ok [OF that [unfolded Refresh_eq]] r out sid by simp
  have refresh_tot: "fst (Refresh now' (store\<lparr>db := (db store)\<lparr>faults := []\<rparr>\<rparr>)) = None" for now'
    unfolding Refresh_eq
    by (rule populateCache_no_fault [where r = r]) (simp_all add: sid r)
  from val create_val create_tot refresh_val refresh_tot show ?thesis
    by (intro conjI allI impI)
qed

theorem Incr_times_survives_restart_witness:
  "Create 5 (ex_factory (ex_db [])) ex_sid = (Inr (ex_store_at 1), db (ex_store_at 1)) \<and>
   NextSenderMsgSeqNum (ex_store_at 1) = 1 \<and>
   IncrNextSenderMsgSeqNum_times 3 (ex_store_at 1) = (None, ex_store_at 4) \<and>
   NextSenderMsgSeqNum (ex_store_at 4) = 4 \<and>
   (\<exists>store'. Create 9 (ex_factory (db (ex_store_at 4))) ex_sid = (Inr store', db store') \<and>
      NextSenderMsgSeqNum store' = 4) \<and>
   (\<exists>store'. Refresh 9 (ex_store_at 4) = (None, store') \<and> NextSenderMsgSeqNum store' = 4)"
proof -
  let ?f = "ex_factory (ex_db [])"
  have c: "Create 5 ?f ex_sid = (Inr (ex_store_at 1), db (ex_store_at 1))"
    by (simp add: Create_def initTables_def populateCache_def cache_defs new_memoryStore_def
          db_defs ex_factory_def ex_db_def ex_store_at_def)
  have one: "NextSenderMsgSeqNum (ex_store_at 1) = 1"
    by (simp add: cache_defs ex_store_at_def)
  have step: "IncrNextSenderMsgSeqNum (ex_store_at k) = (None, ex_store_at (k + 1))"
    if "k < max_int" for k
    using that
    by (simp add: IncrNextSenderMsgSeqNum_def SetNextSenderMsgSeqNum_def cache_defs
          update_sessions_def next_fault_def ex_store_at_def)
  have n: "IncrNextSenderMsgSeqNum_times 3 (ex_store_at 1) = (None, ex_store_at 4)"
    using step [of 1] step [of 2] step [of 3]
    by (simp add: eval_nat_numeral max_int_def)
  have same: "(ex_factory (ex_db []))\<lparr>fdb := (db (ex_store_at 4))\<lparr>faults := []\<rparr>\<rparr> =
      ex_factory (db (ex_store_at 4))"
    "(ex_store_at 4)\<lparr>db := (db (ex_store_at 4))\<lparr>faults := []\<rparr>\<rparr> = ex_store_at 4"
    by (simp_all add: ex_factory_def ex_store_at_def)
  note t = Incr_times_survives_restart [OF c one n, unfolded same]
  from t have v: "NextSenderMsgSeqNum (ex_store_at 4) = 4"
    by simp
  from t obtain s1 where
    s1: "Create 9 (ex_factory (db (ex_store_at 4))) ex_sid = (Inr s1, db s1)"
    by (metis same(1))
  from t have "\<forall>now' fs store' d'.
        Create now' (?f\<lparr>fdb := (db (ex_store_at 4))\<lparr>faults := fs\<rparr>\<rparr>) ex_sid = (Inr store', d') \<longrightarrow>
        NextSenderMsgSeqNum store' = 1 + int 3"
    by blast
  from this [rule_format, of 9 "[]" s1 "db s1"] s1 have v1: "NextSenderMsgSeqNum s1 = 4"
    by (simp add: same)
  from t have "fst (Refresh 9 (ex_store_at 4)) = None"
    by blast
  then obtain s2 where s2: "Refresh 9 (ex_store_at 4) = (None, s2)"
    by (cases "Refresh 9 (ex_store_at 4)") simp
  from t have "\<forall>now' fs store'.
        Refresh now' ((ex_store_at 4)\<lparr>db := (db (ex_store_at 4))\<lparr>faults := fs\<rparr>\<rparr>) = (None, store') \<longrightarrow>
        NextSenderMsgSeqNum store' = 1 + int 3"
    by blast
  from this [rule_format, of 9 "[]" s2] s2 have v2: "NextSenderMsgSeqNum s2 = 4"
    by (simp add: same)
  from c one n v s1 v1 s2 v2 show ?thesis
    by blast
qed

section \<open>Resetting a session\<close>

lemma delete_messages_ok:
  "delete_messages s d = (None, d') \<Longrightarrow>
     \<exists>rows. tbl_messages d = Some rows \<and>
       tbl_messages d' = Some (filter (\<lambda>r. m_key r \<noteq> s) rows) \<and>
       tbl_sessions d' = tbl_sessions d \<and> fix_test_open d' = fix_test_open d"
  by (clarsimp simp: delete_messages_def next_fault_def split: list.splits option.splits)

lemma Reset_ok_steps:
  assumes "Reset now store = (None, store')"
  shows "\<exists>d1. delete_messages (sessionID store) (db store) = (None, d1) \<and>
     update_sessions (sessionID store)
       (\<lambda>r. r\<lparr>creation_time := now, incoming_seqnum := 1, outgoing_seqnum := 1\<rparr>) d1 =
       (None, db store') \<and>
     cache store' =
       (cache store)\<lparr>creationTime := now, nextSenderSeqNum := 1, nextTargetSeqNum := 1\<rparr> \<and>
     sessionID store' = sessionID store"
  using assms
  by (clarsimp simp: Reset_def cache_defs split: prod.splits option.splits)


lemma GetMessages_no_rows:
  assumes t: "tbl_messages (db st) = Some rows"
    and n: "\<forall>r \<in> set rows. m_key r \<noteq> sessionID st"
  shows "fst (GetMessages b e st) =
     (case faults (db st) of Some c # fs \<Rightarrow> Inl (ErrFault c) | _ \<Rightarrow> Inr [])"
proof (cases "fst (next_fault (db st))")
  case None
  have "filter (in_range (sessionID st) b e) rows = []"
    using n by (intro filter_False ballI) (simp add: in_range_def)
  with None t have "fst (GetMessages b e st) = Inr []"
    by (simp add: GetMessages_fst select_messages_no_fault)
  moreover from None have "(case faults (db st) of Some c # fs \<Rightarrow> Inl (ErrFault c) | _ \<Rightarrow> Inr []) =
      (Inr [] :: err + string list)"
    by (simp add: next_fault_def split: list.splits option.splits)
  ultimately show ?thesis by simp
next
  case (Some c)
  then have "fst (GetMessages b e st) = Inl (ErrFault c)"
    by (simp add: GetMessages_fst select_messages_fault)
  moreover from Some have "(case faults (db st) of Some c # fs \<Rightarrow> Inl (ErrFault c) | _ \<Rightarrow> Inr []) =
      (Inl (ErrFault c) :: err + string list)"
    by (simp add: next_fault_def split: list.splits option.splits)
  ultimately show ?thesis by simp
qed

text \<open>
  C9. A \<open>Reset\<close> that returns no error has deleted the session's messages, then
  reset the cache, then updated the session's records, in that order of database calls.
  Afterwards both sequence numbers read 1 and the creation time is the reset's; the
  message table is the old one without the rows of this session; every record of the
  session holds the new creation time and 1 and 1, no record added or removed; and
  \<open>GetMessages\<close> over any range returns the empty sequence, unless the backend fails
  that query.
\<close>

theorem Reset_clears_session:
  assumes r: "Reset now store = (None, store')"
  shows "NextSenderMsgSeqNum store' = 1 \<and> NextTargetMsgSeqNum store' = 1 \<and>
     CreationTime store' = now \<and> sessionID store' = sessionID store \<and>
     (\<exists>d1. delete_messages (sessionID store) (db store) = (None, d1) \<and>
        update_sessions (sessionID store)
          (\<lambda>r. r\<lparr>creation_time := now, incoming_seqnum := 1, outgoing_seqnum := 1\<rparr>) d1 =
          (None, db store')) \<and>
     (\<exists>log. tbl_messages (db store) = Some log \<and>
        tbl_messages (db store') = Some (filter (\<lambda>r. m_key r \<noteq> sessionID store) log)) \<and>
     (\<exists>recs. tbl_sessions (db store) = Some recs \<and>
        tbl_sessions (db store') =
          Some (map (\<lambda>r. if s_key r = sessionID store
                           then r\<lparr>creation_time := now, incoming_seqnum := 1, outgoing_seqnum := 1\<rparr>
                           else r) recs)) \<and>
     (\<forall>b e. fst (GetMessages b e store') =
        (case faults (db store') of Some c # fs \<Rightarrow> Inl (ErrFault c) | _ \<Rightarrow> Inr []))"
proof -
  from Reset_ok_steps [OF r] obtain d1 where
    del: "delete_messages (sessionID store) (db store) = (None, d1)" and
    upd: "update_sessions (sessionID store)
       (\<lambda>r. r\<lparr>creation_time := now, incoming_seqnum := 1, outgoing_seqnum := 1\<rparr>) d1 =
       (None, db store')" and
    c: "cache store' =
       (cache store)\<lparr>creationTime := now, nextSenderSeqNum := 1, nextTargetSeqNum := 1\<rparr>" and
    sid: "sessionID store' = sessionID store"
    by blast
  from delete_messages_ok [OF del] obtain log where
    log: "tbl_messages (db store) = Some log"
      "tbl_messages d1 = Some (filter (\<lambda>r. m_key r \<noteq> sessionID store) log)"
      "tbl_sessions d1 = tbl_sessions (db store)"
    by blast
  from update_sessions_ok_rows [OF upd] obtain recs where
    recs: "tbl_sessions d1 = Some recs"
      "tbl_sessions (db store') =
          Some (map (\<lambda>r. if s_key r = sessionID store
                           then r\<lparr>creation_time := now, incoming_seqnum := 1, outgoing_seqnum := 1\<rparr>
                           else r) recs)"
      "tbl_messages (db store') = tbl_messages d1"
    by blast
  have vals: "NextSenderMsgSeqNum store' = 1 \<and> NextTargetMsgSeqNum store' = 1 \<and>
     CreationTime store' = now"
    by (simp add: c cache_defs)
  have steps: "\<exists>d1. delete_messages (sessionID store) (db store) = (None, d1) \<and>
        update_sessions (sessionID store)
          (\<lambda>r. r\<lparr>creation_time := now, incoming_seqnum := 1, outgoing_seqnum := 1\<rparr>) d1 =
          (None, db store')"
    using del upd by blast
  have msgs: "\<exists>log. tbl_messages (db store) = Some log \<and>
        tbl_messages (db store') = Some (filter (\<lambda>r. m_key r \<noteq> sessionID store) log)"
    using log recs by simp
  have sess: "\<exists>recs. tbl_sessions (db store) = Some recs \<and>
        tbl_sessions (db store') =
          Some (map (\<lambda>r. if s_key r = sessionID store
                           then r\<lparr>creation_time := now, incoming_seqnum := 1, outgoing_seqnum := 1\<rparr>
                           else r) recs)"
  proof (intro exI conjI)
    show "tbl_sessions (db store) = Some recs"
      using log(3) recs(1) by simp
    show "tbl_sessions (db store') =
          Some (map (\<lambda>r. if s_key r = sessionID store
                           then r\<lparr>creation_time := now, incoming_seqnum := 1, outgoing_seqnum := 1\<rparr>
                           else r) recs)"
      by (rule recs(2))
  qed
  have get: "fst (GetMessages b e store') =
        (case faults (db store') of Some c # fs \<Rightarrow> Inl (ErrFault c) | _ \<Rightarrow> Inr [])" for b e
  proof (rule GetMessages_no_rows)
    show "tbl_messages (db store') = Some (filter (\<lambda>r. m_key r \<noteq> sessionID store) log)"
      using log recs by simp
    show "\<forall>r \<in> set (filter (\<lambda>r. m_key r \<noteq> sessionID store) log). m_key r \<noteq> sessionID store'"
      by (simp add: sid)
  qed
  from vals sid steps msgs sess get show ?thesis
    by (intro conjI allI) simp_all
qed

theorem Reset_clears_session_witness:
  "fst (Reset 77 ((ex_store_msgs ex_log [])\<lparr>cache :=
        \<lparr>creationTime = 5, nextSenderSeqNum = 4, nextTargetSeqNum = 9\<rparr>\<rparr>)) = None \<and>
   NextSenderMsgSeqNum (snd (Reset 77 ((ex_store_msgs ex_log [])\<lparr>cache :=
        \<lparr>creationTime = 5, nextSenderSeqNum = 4, nextTargetSeqNum = 9\<rparr>\<rparr>))) = 1 \<and>
   NextTargetMsgSeqNum (snd (Reset 77 ((ex_store_msgs ex_log [])\<lparr>cache :=
        \<lparr>creationTime = 5, nextSenderSeqNum = 4, nextTargetSeqNum = 9\<rparr>\<rparr>))) = 1 \<and>
   fst (GetMessages 1 3 (snd (Reset 77 ((ex_store_msgs ex_log [])\<lparr>cache :=
        \<lparr>creationTime = 5, nextSenderSeqNum = 4, nextTargetSeqNum = 9\<rparr>\<rparr>)))) = Inr []"
proof -
  let ?s = "(ex_store_msgs ex_log [])\<lparr>cache :=
        \<lparr>creationTime = 5, nextSenderSeqNum = 4, nextTargetSeqNum = 9\<rparr>\<rparr>"
  have f: "fst (Reset 77 ?s) = None" and fl: "faults (db (snd (Reset 77 ?s))) = []"
    by (simp_all add: Reset_def delete_messages_def update_sessions_def next_fault_def
          cache_defs ex_store_msgs_def)
  then have "Reset 77 ?s = (None, snd (Reset 77 ?s))"
    by (simp add: prod_eq_iff)
  from Reset_clears_session [OF this] f fl show ?thesis
    by simp
qed

section \<open>Creating a store\<close>

text \<open>
  C5, as stated, fails: a failure of the populate phase comes back as \<open>populateCache\<close>
  returned it. Here the session is configured, both tables exist, and the lookup of the
  session's record fails with fault 7: \<open>Create\<close> returns that error, not wrapped.
\<close>

theorem Create_counterexample:
  "ex_sid \<in> sessionSettings (settings (ex_factory (db (ex_store [None, None, Some 7])))) \<and>
   fst (initTables \<lparr>sessionID = ex_sid, cache = new_memoryStore,
          db = db (ex_store [None, None, Some 7])\<rparr>) = None \<and>
   fst (populateCache
          ((snd (initTables \<lparr>sessionID = ex_sid, cache = new_memoryStore,
                   db = db (ex_store [None, None, Some 7])\<rparr>))
           \<lparr>cache := snd (cache_Reset 0 new_memoryStore)\<rparr>)) = Some (ErrFault 7) \<and>
   fst (Create 0 (ex_factory (db (ex_store [None, None, Some 7]))) ex_sid) = Inl (ErrFault 7)"
  by (simp add: Create_def initTables_def populateCache_def cache_defs new_memoryStore_def
        db_defs ex_factory_def ex_store_def)

text \<open>
  C5, amended. \<open>Create\<close> fails with the "unknown session" error when the identity is
  not configured and the dynamic-sessions setting is absent or false, and with the
  setting's own error when the setting is there and cannot be read. When the identity is
  configured and the setting, if present, reads as a boolean, or when the setting reads
  true, \<open>Create\<close> goes on to table init, cache reset and populate: a failure of table
  init is returned wrapped as "initTables err", a failure of the cache reset wrapped as
  "cache reset", a failure of populate as \<open>populateCache\<close> returned it, and otherwise
  the populated store is returned.
\<close>

theorem Create_admission_and_phases:
  "(sid \<notin> sessionSettings (settings f) \<and>
      (globalDynamicSessions (settings f) = None \<or>
       globalDynamicSessions (settings f) = Some (Inr False)) \<longrightarrow>
      Create now f sid = (Inl (ErrUnknownSessionFmt sid), fdb f)) \<and>
   (\<forall>e. globalDynamicSessions (settings f) = Some (Inl e) \<longrightarrow>
      Create now f sid = (Inl e, fdb f)) \<and>
   ((sid \<in> sessionSettings (settings f) \<and>
       (globalDynamicSessions (settings f) = None \<or>
        (\<exists>b. globalDynamicSessions (settings f) = Some (Inr b)))) \<or>
    globalDynamicSessions (settings f) = Some (Inr True) \<longrightarrow>
      (case initTables \<lparr>sessionID = sid, cache = new_memoryStore, db = fdb f\<rparr> of
         (Some e, st1) \<Rightarrow> Create now f sid = (Inl (Wrap e ''initTables err''), db st1)
       | (None, st1) \<Rightarrow>
           (case cache_Reset now (cache st1) of
              (Some e, c) \<Rightarrow> Create now f sid = (Inl (Wrap e ''cache reset''), db st1)
            | (None, c) \<Rightarrow>
                (case populateCache (st1\<lparr>cache := c\<rparr>) of
                   (Some e, st2) \<Rightarrow> Create now f sid = (Inl e, db st2)
                 | (None, st2) \<Rightarrow> Create now f sid = (Inr st2, db st2)))))"
proof (intro conjI impI allI)
  assume "sid \<notin> sessionSettings (settings f) \<and>
      (globalDynamicSessions (settings f) = None \<or>
       globalDynamicSessions (settings f) = Some (Inr False))"
  then show "Create now f sid = (Inl (ErrUnknownSessionFmt sid), fdb f)"
    by (auto simp: Create_def)
next
  fix e assume "globalDynamicSessions (settings f) = Some (Inl e)"
  then show "Create now f sid = (Inl e, fdb f)"
    by (simp add: Create_def)
next
  assume adm: "(sid \<in> sessionSettings (settings f) \<and>
       (globalDynamicSessions (settings f) = None \<or>
        (\<exists>b. globalDynamicSessions (settings f) = Some (Inr b)))) \<or>
    globalDynamicSessions (settings f) = Some (Inr True)"
  have res: "Create now f sid =
      (case initTables \<lparr>sessionID = sid, cache = new_memoryStore, db = fdb f\<rparr> of
         (Some e, st1) \<Rightarrow> (Inl (Wrap e ''initTables err''), db st1)
       | (None, st1) \<Rightarrow>
           (case cache_Reset now (cache st1) of
              (Some e, c) \<Rightarrow> (Inl (Wrap e ''cache reset''), db st1)
            | (None, c) \<Rightarrow>
                (case populateCache (st1\<lparr>cache := c\<rparr>) of
                   (Some e, st2) \<Rightarrow> (Inl e, db st2)
                 | (None, st2) \<Rightarrow> (Inr st2, db st2))))"
  proof -
    from adm consider
      (a) "sid \<in> sessionSettings (settings f)" "globalDynamicSessions (settings f) = None" |
      (b) b where "sid \<in> sessionSettings (settings f)"
        "globalDynamicSessions (settings f) = Some (Inr b)" |
      (c) "globalDynamicSessions (settings f) = Some (Inr True)"
      by auto
    then show ?thesis
    proof cases
      case a
      then show ?thesis
        by (simp add: Create_def split: prod.splits option.splits)
    next
      case b
      then show ?thesis
        by (simp add: Create_def split: prod.splits option.splits)
    next
      case c
      then show ?thesis
        by (simp add: Create_def split: prod.splits option.splits)
    qed
  qed
  show "case initTables \<lparr>sessionID = sid, cache = new_memoryStore, db = fdb f\<rparr> of
         (Some e, st1) \<Rightarrow> Create now f sid = (Inl (Wrap e ''initTables err''), db st1)
       | (None, st1) \<Rightarrow>
           (case cache_Reset now (cache st1) of
              (Some e, c) \<Rightarrow> Create now f sid = (Inl (Wrap e ''cache reset''), db st1)
            | (None, c) \<Rightarrow>
                (case populateCache (st1\<lparr>cache := c\<rparr>) of
                   (Some e, st2) \<Rightarrow> Create now f sid = (Inl e, db st2)
                 | (None, st2) \<Rightarrow> Create now f sid = (Inr st2, db st2)))"
    by (simp add: res split: prod.splits option.splits)
qed


theorem Create_admission_and_phases_witness:
  "Create 0 (ex_factory (ex_db [])) (ex_sid\<lparr>Qualifier := ''B''\<rparr>) =
     (Inl (ErrUnknownSessionFmt (ex_sid\<lparr>Qualifier := ''B''\<rparr>)), ex_db []) \<and>
   Create 0 ((ex_factory (ex_db []))\<lparr>settings := \<lparr>globalDynamicSessions =
        Some (Inl (ErrSetting ''DynamicSessions'')), sessionSettings = {ex_sid}\<rparr>\<rparr>) ex_sid =
     (Inl (ErrSetting ''DynamicSessions''), ex_db []) \<and>
   fst (Create 0 (ex_factory (ex_db [None, Some 4])) ex_sid) =
     Inl (Wrap (Wrap (ErrFault 4) ''gromStore.initTables err'') ''initTables err'') \<and>
   fst (Create 0 (ex_factory (db (ex_store [None, None, Some 7]))) ex_sid) = Inl (ErrFault 7) \<and>
   Create 5 (ex_factory (ex_db [])) ex_sid =
     (Inr \<lparr>sessionID = ex_sid,
           cache = \<lparr>creationTime = 5, nextSenderSeqNum = 1, nextTargetSeqNum = 1\<rparr>,
           db = \<lparr>tbl_sessions = Some [\<lparr>s_key = ex_sid, creation_time = 5, incoming_seqnum = 1,
                                       outgoing_seqnum = 1\<rparr>],
                 tbl_messages = Some [], fix_test_open = 0, faults = []\<rparr>\<rparr>,
      \<lparr>tbl_sessions = Some [\<lparr>s_key = ex_sid, creation_time = 5, incoming_seqnum = 1,
                               outgoing_seqnum = 1\<rparr>],
        tbl_messages = Some [], fix_test_open = 0, faults = []\<rparr>)"
proof -
  note ev = initTables_def populateCache_def cache_defs new_memoryStore_def db_defs
    ex_factory_def ex_db_def ex_store_def
  have "Create 0 (ex_factory (ex_db [])) (ex_sid\<lparr>Qualifier := ''B''\<rparr>) =
     (Inl (ErrUnknownSessionFmt (ex_sid\<lparr>Qualifier := ''B''\<rparr>)), ex_db [])"
    using Create_admission_and_phases [of "ex_sid\<lparr>Qualifier := ''B''\<rparr>" "ex_factory (ex_db [])" 0]
    by (simp add: ex_factory_def ex_sid_def)
  moreover have "Create 0 ((ex_factory (ex_db []))\<lparr>settings := \<lparr>globalDynamicSessions =
        Some (Inl (ErrSetting ''DynamicSessions'')), sessionSettings = {ex_sid}\<rparr>\<rparr>) ex_sid =
     (Inl (ErrSetting ''DynamicSessions''), ex_db [])"
    using Create_admission_and_phases [of ex_sid "(ex_factory (ex_db []))\<lparr>settings :=
        \<lparr>globalDynamicSessions = Some (Inl (ErrSetting ''DynamicSessions'')),
         sessionSettings = {ex_sid}\<rparr>\<rparr>" 0]
    by (simp add: ex_factory_def)
  moreover have "fst (Create 0 (ex_factory (ex_db [None, Some 4])) ex_sid) =
     Inl (Wrap (Wrap (ErrFault 4) ''gromStore.initTables err'') ''initTables err'')"
    using Create_admission_and_phases [of ex_sid "ex_factory (ex_db [None, Some 4])" 0]
    by (simp add: ev)
  moreover have "fst (Create 0 (ex_factory (db (ex_store [None, None, Some 7]))) ex_sid) =
     Inl (ErrFault 7)"
    using Create_admission_and_phases [of ex_sid "ex_factory (db (ex_store [None, None, Some 7]))" 0]
    by (simp add: ev)
  moreover have "Create 5 (ex_factory (ex_db [])) ex_sid =
     (Inr \<lparr>sessionID = ex_sid,
           cache = \<lparr>creationTime = 5, nextSenderSeqNum = 1, nextTargetSeqNum = 1\<rparr>,
           db = \<lparr>tbl_sessions = Some [\<lparr>s_key = ex_sid, creation_time = 5, incoming_seqnum = 1,
                                       outgoing_seqnum = 1\<rparr>],
                 tbl_messages = Some [], fix_test_open = 0, faults = []\<rparr>\<rparr>,
      \<lparr>tbl_sessions = Some [\<lparr>s_key = ex_sid, creation_time = 5, incoming_seqnum = 1,
                               outgoing_seqnum = 1\<rparr>],
        tbl_messages = Some [], fix_test_open = 0, faults = []\<rparr>)"
    using Create_admission_and_phases [of ex_sid "ex_factory (ex_db [])" 5]
    by (simp add: ev)
  ultimately show ?thesis by (intro conjI)
qed

section \<open>Routing a message\<close>

text \<open>
  C7. \<open>Send\<close> reads BeginString, TargetCompID and SenderCompID from the header, in
  that order; the first read that fails ends the call with that error, the registry not
  consulted and unchanged. When all three are read, \<open>Send\<close> is \<open>SendToTarget\<close> at
  the SessionID made of the three values, with SenderSubID and TargetSubID in the key only
  when both are non-empty (an absent sub-ID reads as empty), every other field empty.
\<close>

theorem Send_derives_SessionID:
  "(\<forall>e. GetField (Header msg) tagBeginString = Inl e \<longrightarrow>
      Send queueForSend msg sessions = (Some e, sessions)) \<and>
   (\<forall>b e. GetField (Header msg) tagBeginString = Inr b \<and>
      GetField (Header msg) tagTargetCompID = Inl e \<longrightarrow>
      Send queueForSend msg sessions = (Some e, sessions)) \<and>
   (\<forall>b t e. GetField (Header msg) tagBeginString = Inr b \<and>
      GetField (Header msg) tagTargetCompID = Inr t \<and>
      GetField (Header msg) tagSenderCompID = Inl e \<longrightarrow>
      Send queueForSend msg sessions = (Some e, sessions)) \<and>
   (\<forall>b t s. GetField (Header msg) tagBeginString = Inr b \<and>
      GetField (Header msg) tagTargetCompID = Inr t \<and>
      GetField (Header msg) tagSenderCompID = Inr s \<longrightarrow>
      (let ss = (case Header msg tagSenderSubID of None \<Rightarrow> [] | Some v \<Rightarrow> v);
           ts = (case Header msg tagTargetSubID of None \<Rightarrow> [] | Some v \<Rightarrow> v);
           both = (ss \<noteq> [] \<and> ts \<noteq> [])
       in Send queueForSend msg sessions =
            SendToTarget queueForSend msg
              \<lparr>BeginString = b, TargetCompID = t,
               TargetSubID = (if both then ts else []), TargetLocationID = [],
               SenderCompID = s, SenderSubID = (if both then ss else []),
               SenderLocationID = [], Qualifier = []\<rparr> sessions))"
proof (intro conjI allI impI)
  fix e assume "GetField (Header msg) tagBeginString = Inl e"
  then show "Send queueForSend msg sessions = (Some e, sessions)"
    by (simp add: Send_def)
next
  fix b e assume "GetField (Header msg) tagBeginString = Inr b \<and>
      GetField (Header msg) tagTargetCompID = Inl e"
  then show "Send queueForSend msg sessions = (Some e, sessions)"
    by (simp add: Send_def)
next
  fix b t e assume "GetField (Header msg) tagBeginString = Inr b \<and>
      GetField (Header msg) tagTargetCompID = Inr t \<and>
      GetField (Header msg) tagSenderCompID = Inl e"
  then show "Send queueForSend msg sessions = (Some e, sessions)"
    by (simp add: Send_def)
next
  fix b t s assume h: "GetField (Header msg) tagBeginString = Inr b \<and>
      GetField (Header msg) tagTargetCompID = Inr t \<and>
      GetField (Header msg) tagSenderCompID = Inr s"
  have sub: "(case GetField (Header msg) tag of Inl e \<Rightarrow> [] | Inr v \<Rightarrow> v) =
      (case Header msg tag of None \<Rightarrow> [] | Some v \<Rightarrow> v)" for tag
    by (simp add: GetField_def split: option.splits)
  from h show "let ss = (case Header msg tagSenderSubID of None \<Rightarrow> [] | Some v \<Rightarrow> v);
           ts = (case Header msg tagTargetSubID of None \<Rightarrow> [] | Some v \<Rightarrow> v);
           both = (ss \<noteq> [] \<and> ts \<noteq> [])
       in Send queueForSend msg sessions =
            SendToTarget queueForSend msg
              \<lparr>BeginString = b, TargetCompID = t,
               TargetSubID = (if both then ts else []), TargetLocationID = [],
               SenderCompID = s, SenderSubID = (if both then ss else []),
               SenderLocationID = [], Qualifier = []\<rparr> sessions"
    by (simp add: Send_def sub Let_def)
qed

lemmas tag_defs = tagBeginString_def tagTargetCompID_def tagSenderCompID_def
  tagSenderSubID_def tagTargetSubID_def

theorem Send_derives_SessionID_witness:
  "Send (\<lambda>s m. (None, s)) \<lparr>Header = ex_header\<rparr> [ex_sid \<mapsto> ex_session] =
     SendToTarget (\<lambda>s m. (None, s)) \<lparr>Header = ex_header\<rparr> ex_sid [ex_sid \<mapsto> ex_session] \<and>
   Send (\<lambda>s m. (None, s)) \<lparr>Header = ex_header(tagSenderSubID \<mapsto> ''DESK'')\<rparr>
       [ex_sid \<mapsto> ex_session] =
     SendToTarget (\<lambda>s m. (None, s)) \<lparr>Header = ex_header(tagSenderSubID \<mapsto> ''DESK'')\<rparr>
       ex_sid [ex_sid \<mapsto> ex_session] \<and>
   Send (\<lambda>s m. (None, s))
       \<lparr>Header = ex_header(tagSenderSubID \<mapsto> ''DESK'', tagTargetSubID \<mapsto> ''FLOOR'')\<rparr>
       [ex_sid \<mapsto> ex_session] =
     SendToTarget (\<lambda>s m. (None, s))
       \<lparr>Header = ex_header(tagSenderSubID \<mapsto> ''DESK'', tagTargetSubID \<mapsto> ''FLOOR'')\<rparr>
       (ex_sid\<lparr>TargetSubID := ''FLOOR'', SenderSubID := ''DESK''\<rparr>) [ex_sid \<mapsto> ex_session] \<and>
   Send (\<lambda>s m. (None, s)) \<lparr>Header = ex_header(tagTargetCompID := None)\<rparr>
       [ex_sid \<mapsto> ex_session] =
     (Some (ErrFieldMissing tagTargetCompID), [ex_sid \<mapsto> ex_session]) \<and>
   Send (\<lambda>s m. (None, s))
       \<lparr>Header = ex_header(tagSenderSubID \<mapsto> ''DESK'', tagTargetSubID \<mapsto> ''FLOOR'')\<rparr>
       [ex_sid \<mapsto> ex_session] =
     (Some errUnknownSession, [ex_sid \<mapsto> ex_session])"
proof -
  let ?q = "\<lambda>(s :: unit session) (m :: Message). (None :: err option, s)"
  let ?r = "[ex_sid \<mapsto> ex_session]"
  note ev = GetField_def ex_header_def tag_defs ex_sid_def Let_def SendToTarget_def
    lookupSession_def
  show ?thesis
    using Send_derives_SessionID [of "\<lparr>Header = ex_header\<rparr>" ?q ?r]
      Send_derives_SessionID [of "\<lparr>Header = ex_header(tagSenderSubID \<mapsto> ''DESK'')\<rparr>" ?q ?r]
      Send_derives_SessionID
        [of "\<lparr>Header = ex_header(tagSenderSubID \<mapsto> ''DESK'', tagTargetSubID \<mapsto> ''FLOOR'')\<rparr>" ?q ?r]
      Send_derives_SessionID [of "\<lparr>Header = ex_header(tagTargetCompID := None)\<rparr>" ?q ?r]
    by (simp add: ev)
qed

section \<open>Registering and unregistering sessions\<close>

text \<open>
  C6. Registering a handle whose identity is already in the registry fails with
  \<open>errDuplicateSessionID\<close> and leaves the registry as it was; unregistering an identity
  that is not there fails with \<open>errUnknownSession\<close>; and once \<open>UnregisterSession\<close>
  has returned no error, \<open>lookupSession\<close> does not find the identity.
\<close>

theorem registry_register_unregister:
  "(sessions (s_sessionID s) \<noteq> None \<longrightarrow>
      registerSession s sessions = (Some errDuplicateSessionID, sessions)) \<and>
   (sessions sid = None \<longrightarrow>
      UnregisterSession Close sid sessions = (Some errUnknownSession, sessions)) \<and>
   (fst (UnregisterSession Close sid sessions) = None \<longrightarrow>
      lookupSession sid (snd (UnregisterSession Close sid sessions)) = None)"
  by (auto simp: registerSession_def UnregisterSession_def lookupSession_def
        split: option.splits prod.splits)

theorem registry_register_unregister_witness:
  "registerSession ex_session [ex_sid \<mapsto> ex_session] =
     (Some errDuplicateSessionID, [ex_sid \<mapsto> ex_session]) \<and>
   UnregisterSession (\<lambda>st. (None, st)) ex_sid (Map.empty :: unit registry) =
     (Some errUnknownSession, Map.empty) \<and>
   fst (UnregisterSession (\<lambda>st. (None, st)) ex_sid [ex_sid \<mapsto> ex_session]) = None \<and>
   lookupSession ex_sid
     (snd (UnregisterSession (\<lambda>st. (None, st)) ex_sid [ex_sid \<mapsto> ex_session])) = None"
proof -
  have r: "[ex_sid \<mapsto> ex_session] (s_sessionID ex_session) \<noteq> None"
    by (simp add: ex_session_def)
  have u: "fst (UnregisterSession (\<lambda>st. (None, st)) ex_sid [ex_sid \<mapsto> ex_session]) = None"
    by (simp add: UnregisterSession_def)
  from registry_register_unregister [of "[ex_sid \<mapsto> ex_session]" ex_session ex_sid "\<lambda>st. (None, st)"]
    registry_register_unregister [of "Map.empty :: unit registry" ex_session ex_sid "\<lambda>st. (None, st)"]
    r u
  show ?thesis by simp
qed

text \<open>
  C10. When the identity is registered and its store's \<open>Close\<close> fails with \<open>e\<close>,
  \<open>UnregisterSession\<close> returns \<open>e\<close> and removes nothing: the registry has the
  same identities and \<open>lookupSession\<close> still finds the handle, its store as
  \<open>Close\<close> left it.
\<close>

theorem Unregister_close_error_keeps_entry:
  assumes "sessions sid = Some s" and "Close (s_store s) = (Some e, st)"
  shows "fst (UnregisterSession Close sid sessions) = Some e \<and>
         lookupSession sid (snd (UnregisterSession Close sid sessions)) = Some (s\<lparr>s_store := st\<rparr>) \<and>
         dom (snd (UnregisterSession Close sid sessions)) = dom sessions"
  using assms by (auto simp: UnregisterSession_def lookupSession_def)

theorem Unregister_close_error_keeps_entry_witness:
  "fst (UnregisterSession (\<lambda>st. (Some (ErrOther ''close''), st)) ex_sid [ex_sid \<mapsto> ex_session]) =
     Some (ErrOther ''close'') \<and>
   lookupSession ex_sid
     (snd (UnregisterSession (\<lambda>st. (Some (ErrOther ''close''), st)) ex_sid [ex_sid \<mapsto> ex_session])) =
     Some ex_session"
  using Unregister_close_error_keeps_entry
    [of "[ex_sid \<mapsto> ex_session]" ex_sid ex_session "\<lambda>st. (Some (ErrOther ''close''), st)"
        "ErrOther ''close''" "()"]
  by simp

end
